theory Spec2Isabelle
  imports Main "HOL-Library.Word"
begin

section \<open>The SCP wrapper of libssh (src/libssh/scp.c)\<close>

text \<open>
  A shallow embedding of \<^verbatim>\<open>scp.c\<close>. Every function of the file is a HOL function of
  the same name that takes the \<^verbatim>\<open>ssh_scp\<close> structure and returns the C return value
  together with the updated structure. Bytes and characters are \<open>char\<close> (C's
  \<^verbatim>\<open>char\<close>), a C string is the list of its characters before the terminating NUL,
  \<^verbatim>\<open>size_t\<close> is a 64-bit word whose arithmetic wraps, \<^verbatim>\<open>int\<close> return values are
  \<open>int\<close>.
\<close>

subsection \<open>Constants and types declared in the headers\<close>

text \<open>
  The headers \<^verbatim>\<open>libssh/libssh.h\<close> and \<^verbatim>\<open>libssh/priv.h\<close> are not part of the sources at
  hand. The return codes, the two modes and the two request types are given the values
  the library uses; the properties below only need that they are pairwise distinct and
  that \<open>SSH_ERROR\<close> is negative, so that it is never a byte count.
\<close>

definition SSH_OK :: int where
  "SSH_OK = 0"

definition SSH_ERROR :: int where
  "SSH_ERROR = - 1"

definition SSH_SCP_WRITE :: int where
  "SSH_SCP_WRITE = 0"

definition SSH_SCP_READ :: int where
  "SSH_SCP_READ = 1"

definition SSH_SCP_REQUEST_NEWDIR :: int where
  "SSH_SCP_REQUEST_NEWDIR = 1"

definition SSH_SCP_REQUEST_NEWFILE :: int where
  "SSH_SCP_REQUEST_NEWFILE = 2"

text \<open>
  Modelled from the spec: the width of \<^verbatim>\<open>size_t\<close>, the type of the counters
  \<^verbatim>\<open>filelen\<close> and \<^verbatim>\<open>processed\<close> (the structure is declared in \<^verbatim>\<open>priv.h\<close>); the
  specification gives both counters as unsigned 64-bit values.
\<close>

type_synonym size_t = "64 word"

datatype ssh_scp_states =
    SSH_SCP_NEW
  | SSH_SCP_WRITE_INITED
  | SSH_SCP_WRITE_WRITING
  | SSH_SCP_READ_INITED
  | SSH_SCP_READ_REQUESTED
  | SSH_SCP_READ_READING
  | SSH_SCP_ERROR

subsection \<open>The transport: session, channel and heap\<close>

text \<open>
  Modelled from the spec: the channel collaborator (\<^verbatim>\<open>channel_new\<close>,
  \<^verbatim>\<open>channel_open_session\<close>, \<^verbatim>\<open>channel_request_exec\<close>, \<^verbatim>\<open>channel_write\<close>,
  \<^verbatim>\<open>channel_read\<close>, \<^verbatim>\<open>channel_poll\<close>, \<^verbatim>\<open>channel_send_eof\<close>, \<^verbatim>\<open>channel_close\<close>,
  \<^verbatim>\<open>channel_free\<close>) lives in other files of the library. Its contract is the one of the
  specification: a write returns the number of bytes written, at most the number
  offered, or fails; a read returns at most the number of bytes asked for, no byte at
  the end of the stream, or fails; the other calls succeed or fail.

  The transport is an oracle. The record \<open>ssh_session\<close> holds what it will answer
  to the calls still to come, so that every theorem quantified over the session holds
  for every behaviour of the peer and of the network:
  \<^item> \<open>outcomes\<close>: whether the next calls that only succeed or fail (allocation,
    opening, exec request, end of file, close) succeed;
  \<^item> \<open>write_replies\<close>: for the next calls of \<^verbatim>\<open>channel_write\<close>, \<open>None\<close> for a failure
    or the number of bytes the channel is ready to take;
  \<^item> \<open>read_replies\<close>: for the next calls of \<^verbatim>\<open>channel_read\<close>, \<open>None\<close> for a failure or
    the bytes the call delivers, cut to the count asked for (the empty list at the end
    of the stream).
  A call beyond the end of its list fails. The record also holds what the code has done
  to the outside: \<open>calls\<close>, the channel calls made so far in order, the message of
  the last \<^verbatim>\<open>ssh_set_error\<close>, and the number of heap blocks allocated and not yet freed.
\<close>

datatype channel_call =
    Channel_new
  | Channel_open_session
  | Channel_request_exec string
  | Channel_write string nat
  | Channel_read nat
  | Channel_poll
  | Channel_send_eof
  | Channel_close
  | Channel_free

record ssh_session =
  outcomes :: "bool list"
  write_replies :: "nat option list"
  read_replies :: "string option list"
  calls :: "channel_call list"
  error_message :: string
  heap_blocks :: nat

definition ssh_set_error :: "ssh_session \<Rightarrow> string \<Rightarrow> ssh_session" where
  "ssh_set_error s msg = s\<lparr>error_message := msg\<rparr>"

definition next_outcome :: "ssh_session \<Rightarrow> bool \<times> ssh_session" where
  "next_outcome s =
     (case outcomes s of
        [] \<Rightarrow> (False, s)
      | b # bs \<Rightarrow> (b, s\<lparr>outcomes := bs\<rparr>))"

definition status_call :: "channel_call \<Rightarrow> ssh_session \<Rightarrow> int \<times> ssh_session" where
  "status_call c s =
     (let (ok, s1) = next_outcome (s\<lparr>calls := calls s @ [c]\<rparr>)
      in (if ok then SSH_OK else SSH_ERROR, s1))"

definition channel_new :: "ssh_session \<Rightarrow> bool \<times> ssh_session" where
  "channel_new s = next_outcome (s\<lparr>calls := calls s @ [Channel_new]\<rparr>)"

definition channel_open_session :: "ssh_session \<Rightarrow> int \<times> ssh_session" where
  "channel_open_session s = status_call Channel_open_session s"

definition channel_request_exec :: "ssh_session \<Rightarrow> string \<Rightarrow> int \<times> ssh_session" where
  "channel_request_exec s cmd = status_call (Channel_request_exec cmd) s"

definition channel_send_eof :: "ssh_session \<Rightarrow> int \<times> ssh_session" where
  "channel_send_eof s = status_call Channel_send_eof s"

definition channel_close :: "ssh_session \<Rightarrow> int \<times> ssh_session" where
  "channel_close s = status_call Channel_close s"

definition channel_free :: "ssh_session \<Rightarrow> ssh_session" where
  "channel_free s = s\<lparr>calls := calls s @ [Channel_free]\<rparr>"

definition channel_poll :: "ssh_session \<Rightarrow> ssh_session" where
  "channel_poll s = s\<lparr>calls := calls s @ [Channel_poll]\<rparr>"

text \<open>
  \<^verbatim>\<open>channel_write(channel, data, len)\<close>: \<open>data\<close> is the memory behind the pointer, of
  which the first \<open>len\<close> bytes are offered.
\<close>

definition channel_write :: "ssh_session \<Rightarrow> string \<Rightarrow> nat \<Rightarrow> int \<times> ssh_session" where
  "channel_write s data len =
     (let s1 = s\<lparr>calls := calls s @ [Channel_write (take len data) len]\<rparr>
      in case write_replies s1 of
           [] \<Rightarrow> (SSH_ERROR, s1)
         | None # ws \<Rightarrow> (SSH_ERROR, s1\<lparr>write_replies := ws\<rparr>)
         | Some n # ws \<Rightarrow> (int (min n len), s1\<lparr>write_replies := ws\<rparr>))"

text \<open>
  \<^verbatim>\<open>channel_read(channel, dest, count, 0)\<close>: the result is the return value and the
  bytes stored at \<open>dest\<close>.
\<close>

definition channel_read :: "ssh_session \<Rightarrow> nat \<Rightarrow> int \<times> string \<times> ssh_session" where
  "channel_read s count =
     (let s1 = s\<lparr>calls := calls s @ [Channel_read count]\<rparr>
      in case read_replies s1 of
           [] \<Rightarrow> (SSH_ERROR, [], s1)
         | None # rs \<Rightarrow> (SSH_ERROR, [], s1\<lparr>read_replies := rs\<rparr>)
         | Some bs # rs \<Rightarrow> (int (length (take count bs)), take count bs, s1\<lparr>read_replies := rs\<rparr>))"

text \<open>Heap blocks: \<^verbatim>\<open>malloc\<close> and \<^verbatim>\<open>strdup\<close> may fail, \<^verbatim>\<open>SAFE_FREE\<close> ignores NULL.\<close>

definition alloc :: "ssh_session \<Rightarrow> bool \<times> ssh_session" where
  "alloc s =
     (let (ok, s1) = next_outcome s
      in (ok, if ok then s1\<lparr>heap_blocks := Suc (heap_blocks s1)\<rparr> else s1))"

definition strdup_ok :: "ssh_session \<Rightarrow> ssh_session" where
  "strdup_ok s = s\<lparr>heap_blocks := Suc (heap_blocks s)\<rparr>"

definition free_block :: "ssh_session \<Rightarrow> ssh_session" where
  "free_block s = s\<lparr>heap_blocks := heap_blocks s - 1\<rparr>"

definition SAFE_FREE :: "'a option \<Rightarrow> ssh_session \<Rightarrow> ssh_session" where
  "SAFE_FREE p s = (case p of None \<Rightarrow> s | Some _ \<Rightarrow> free_block s)"

subsection \<open>C library helpers\<close>

definition NUL :: char where
  "NUL = CHR 0x00"

definition LF :: char where
  "LF = CHR 0x0A"

definition c_str :: "string \<Rightarrow> string" where
  \<comment> \<open>the C string that starts at the beginning of a character array\<close>
  "c_str buf = takeWhile (\<lambda>c. c \<noteq> NUL) buf"

definition strlen :: "string \<Rightarrow> nat" where
  "strlen buf = length (c_str buf)"

definition snprintf :: "nat \<Rightarrow> string \<Rightarrow> string" where
  \<comment> \<open>\<^verbatim>\<open>snprintf(buffer, n, ...)\<close> keeps at most \<open>n - 1\<close> characters of the formatted text\<close>
  "snprintf n formatted = take (n - 1) formatted"

definition digit_char :: "nat \<Rightarrow> char" where
  "digit_char d = char_of (48 + d)"

fun dec :: "nat \<Rightarrow> string" where
  "dec n = (if n < 10 then [digit_char n] else dec (n div 10) @ [digit_char (n mod 10)])"

definition dec_int :: "int \<Rightarrow> string" where
  \<comment> \<open>\<^verbatim>\<open>%d\<close>\<close>
  "dec_int i = (if i < 0 then CHR ''-'' # dec (nat (- i)) else dec (nat i))"

definition null_str :: "string option \<Rightarrow> string" where
  \<comment> \<open>\<^verbatim>\<open>%s\<close> of a pointer that may be NULL, as the C library prints it\<close>
  "null_str p = (case p of None \<Rightarrow> ''(null)'' | Some s \<Rightarrow> s)"

subsection \<open>The session structure\<close>

record ssh_scp =
  session :: ssh_session
  mode :: int
  channel :: bool
  location :: "string option"
  state :: ssh_scp_states
  filelen :: size_t
  processed :: size_t
  request_type :: int
  request_name :: "string option"
  request_mode :: "string option"

text \<open>
  \<open>channel\<close> tells whether the pointer is not NULL; the channel itself is part of the
  transport. \<open>ZERO_STRUCTP\<close> gives the structure below.
\<close>

definition zero_scp :: "ssh_session \<Rightarrow> ssh_scp" where
  "zero_scp s =
     \<lparr>session = s, mode = 0, channel = False, location = None, state = SSH_SCP_NEW,
      filelen = 0, processed = 0, request_type = 0, request_name = None,
      request_mode = None\<rparr>"

subsection \<open>Closing and freeing\<close>

definition ssh_scp_close :: "ssh_scp \<Rightarrow> int \<times> ssh_scp" where
  "ssh_scp_close scp =
     (if channel scp then
        (let (r1, s1) = channel_send_eof (session scp) in
         if r1 = SSH_ERROR then (SSH_ERROR, scp\<lparr>session := s1, state := SSH_SCP_ERROR\<rparr>)
         else
           (let (r2, s2) = channel_close s1 in
            if r2 = SSH_ERROR then (SSH_ERROR, scp\<lparr>session := s2, state := SSH_SCP_ERROR\<rparr>)
            else (SSH_OK, scp\<lparr>session := channel_free s2, channel := False, state := SSH_SCP_NEW\<rparr>)))
      else (SSH_OK, scp\<lparr>state := SSH_SCP_NEW\<rparr>))"

text \<open>\<^verbatim>\<open>ssh_scp_free\<close> returns nothing and the structure is gone: the result is the transport.\<close>

definition ssh_scp_free :: "ssh_scp \<Rightarrow> ssh_session" where
  "ssh_scp_free scp =
     (let scp1 = (if state scp \<noteq> SSH_SCP_NEW then snd (ssh_scp_close scp) else scp);
          s1 = (if channel scp1 then channel_free (session scp1) else session scp1);
          s2 = SAFE_FREE (location scp1) s1;
          s3 = SAFE_FREE (request_mode scp1) s2;
          s4 = SAFE_FREE (request_name scp1) s3
      in free_block s4)"

subsection \<open>Creation and initialisation\<close>

definition ssh_scp_new :: "ssh_session \<Rightarrow> int \<Rightarrow> string \<Rightarrow> ssh_scp option \<times> ssh_session" where
  "ssh_scp_new sess md loc =
     (let (ok, s1) = alloc sess in
      if \<not> ok then (None, ssh_set_error s1 ''Error allocating memory for ssh_scp'')
      else
        (let scp = zero_scp s1 in
         if md \<noteq> SSH_SCP_WRITE \<and> md \<noteq> SSH_SCP_READ then
           (None, ssh_scp_free (scp\<lparr>session :=
              ssh_set_error s1 (''Invalid mode '' @ dec_int md @ '' for ssh_scp_new()'')\<rparr>))
         else
           (let (ok2, s2) = alloc s1 in
            if \<not> ok2 then
              (None, ssh_scp_free (scp\<lparr>session :=
                 ssh_set_error s2 ''Error allocating memory for ssh_scp''\<rparr>))
            else
              (Some (scp\<lparr>session := s2, location := Some loc, mode := md, channel := False,
                         state := SSH_SCP_NEW\<rparr>), s2))))"

text \<open>
  The status byte \<^verbatim>\<open>code\<close> is a local variable that is not initialised, and the result
  of the \<^verbatim>\<open>channel_read\<close> that fills it is not looked at: when the read stores no
  byte, \<^verbatim>\<open>code\<close> keeps the indeterminate value it had, the parameter \<open>code0\<close>.
\<close>

definition read_code :: "char \<Rightarrow> ssh_session \<Rightarrow> char \<times> ssh_session" where
  "read_code code0 s =
     (let (r, bs, s1) = channel_read s 1
      in (case bs of [] \<Rightarrow> code0 | c # _ \<Rightarrow> c, s1))"

definition status_error :: "char \<Rightarrow> string" where
  \<comment> \<open>the format is \<^verbatim>\<open>%ud\<close>: an unsigned number and the letter d\<close>
  "status_error code = ''scp status code '' @ dec (of_char code) @ ''d not valid''"

definition ssh_scp_init :: "char \<Rightarrow> ssh_scp \<Rightarrow> int \<times> ssh_scp" where
  "ssh_scp_init code0 scp =
     (if state scp \<noteq> SSH_SCP_NEW then
        (SSH_ERROR, scp\<lparr>session :=
           ssh_set_error (session scp) ''ssh_scp_init called under invalid state''\<rparr>)
      else
        (let (ch, s1) = channel_new (session scp);
             scp1 = scp\<lparr>session := s1, channel := ch\<rparr> in
         if \<not> ch then (SSH_ERROR, scp1\<lparr>state := SSH_SCP_ERROR\<rparr>)
         else
           (let (r, s2) = channel_open_session s1 in
            if r = SSH_ERROR then (SSH_ERROR, scp1\<lparr>session := s2, state := SSH_SCP_ERROR\<rparr>)
            else
              (let execbuffer =
                     (if mode scp1 = SSH_SCP_WRITE
                      then snprintf 1024 (''scp -t '' @ null_str (location scp1))
                      else snprintf 1024 (''scp -f '' @ null_str (location scp1)));
                   (r3, s3) = channel_request_exec s2 (c_str execbuffer) in
               if r3 = SSH_ERROR then (SSH_ERROR, scp1\<lparr>session := s3, state := SSH_SCP_ERROR\<rparr>)
               else
                 (let (code, s4) = read_code code0 s3 in
                  if code \<noteq> NUL then
                    (SSH_ERROR, scp1\<lparr>session := ssh_set_error s4 (status_error code),
                                     state := SSH_SCP_ERROR\<rparr>)
                  else if mode scp1 = SSH_SCP_WRITE then
                    (SSH_OK, scp1\<lparr>session := s4, state := SSH_SCP_WRITE_INITED\<rparr>)
                  else
                    (SSH_OK, scp1\<lparr>session := s4, state := SSH_SCP_READ_INITED\<rparr>))))))"

subsection \<open>Pushing\<close>

text \<open>
  Modelled from the spec: \<^verbatim>\<open>ssh_basename\<close> is defined in another file of the library.
  The specification says that the final component of the path is used and that every
  directory component is stripped: the text after the last separator. The block it
  allocates is freed two lines later, so the heap count is left alone.
\<close>

definition ssh_basename :: "string \<Rightarrow> string" where
  "ssh_basename path = rev (takeWhile (\<lambda>c. c \<noteq> CHR ''/'') (rev path))"

text \<open>
  Modelled from the spec: the format macro \<^verbatim>\<open>PRIdS\<close> for a \<^verbatim>\<open>size_t\<close> comes from
  \<^verbatim>\<open>priv.h\<close>. The specification says that the size is written as the decimal byte
  count.
\<close>

definition PRIdS :: "size_t \<Rightarrow> string" where
  "PRIdS n = dec (unat n)"

definition ssh_scp_push_directory :: "char \<Rightarrow> ssh_scp \<Rightarrow> string \<Rightarrow> string \<Rightarrow> int \<times> ssh_scp" where
  "ssh_scp_push_directory code0 scp dirname perms =
     (if state scp \<noteq> SSH_SCP_WRITE_INITED then
        (SSH_ERROR, scp\<lparr>session :=
           ssh_set_error (session scp) ''ssh_scp_push_directory called under invalid state''\<rparr>)
      else
        (let dir = ssh_basename dirname;
             buffer = snprintf 1024 (''D'' @ perms @ '' 0 '' @ dir @ [LF]);
             (r, s1) = channel_write (session scp) buffer (strlen buffer) in
         if r = SSH_ERROR then (SSH_ERROR, scp\<lparr>session := s1, state := SSH_SCP_ERROR\<rparr>)
         else
           (let (code, s2) = read_code code0 s1 in
            if code \<noteq> NUL then
              (SSH_ERROR, scp\<lparr>session := ssh_set_error s2 (status_error code),
                              state := SSH_SCP_ERROR\<rparr>)
            else (SSH_OK, scp\<lparr>session := s2\<rparr>))))"

definition ssh_scp_leave_directory :: "char \<Rightarrow> ssh_scp \<Rightarrow> int \<times> ssh_scp" where
  "ssh_scp_leave_directory code0 scp =
     (if state scp \<noteq> SSH_SCP_WRITE_INITED then
        (SSH_ERROR, scp\<lparr>session :=
           ssh_set_error (session scp) ''ssh_scp_leave_directory called under invalid state''\<rparr>)
      else
        (let buffer = [CHR ''E'', LF];
             (r, s1) = channel_write (session scp) buffer (strlen buffer) in
         if r = SSH_ERROR then (SSH_ERROR, scp\<lparr>session := s1, state := SSH_SCP_ERROR\<rparr>)
         else
           (let (code, s2) = read_code code0 s1 in
            if code \<noteq> NUL then
              (SSH_ERROR, scp\<lparr>session := ssh_set_error s2 (status_error code),
                              state := SSH_SCP_ERROR\<rparr>)
            else (SSH_OK, scp\<lparr>session := s2\<rparr>))))"

definition ssh_scp_push_file :: "char \<Rightarrow> ssh_scp \<Rightarrow> string \<Rightarrow> size_t \<Rightarrow> string \<Rightarrow> int \<times> ssh_scp" where
  "ssh_scp_push_file code0 scp filename sz perms =
     (if state scp \<noteq> SSH_SCP_WRITE_INITED then
        (SSH_ERROR, scp\<lparr>session :=
           ssh_set_error (session scp) ''ssh_scp_push_file called under invalid state''\<rparr>)
      else
        (let file = ssh_basename filename;
             buffer = snprintf 1024 (''C'' @ perms @ '' '' @ PRIdS sz @ '' '' @ file @ [LF]);
             (r, s1) = channel_write (session scp) buffer (strlen buffer) in
         if r = SSH_ERROR then (SSH_ERROR, scp\<lparr>session := s1, state := SSH_SCP_ERROR\<rparr>)
         else
           (let (code, s2) = read_code code0 s1 in
            if code \<noteq> NUL then
              (SSH_ERROR, scp\<lparr>session := ssh_set_error s2 (status_error code),
                              state := SSH_SCP_ERROR\<rparr>)
            else
              (SSH_OK, scp\<lparr>session := s2, filelen := sz, processed := 0,
                           state := SSH_SCP_WRITE_WRITING\<rparr>))))"

text \<open>
  \<^verbatim>\<open>ssh_scp_write(scp, buffer, len)\<close>: \<open>buffer\<close> is the memory behind the pointer. The
  comparison \<^verbatim>\<open>processed + len > filelen\<close> is made on \<^verbatim>\<open>size_t\<close>, where the sum wraps;
  \<^verbatim>\<open>ssh_scp_read\<close> starts with the same two lines, so they are one definition.
  The \<^verbatim>\<open>int\<close> returned by \<^verbatim>\<open>channel_write\<close> is added to the \<^verbatim>\<open>size_t\<close> counter.
\<close>

definition clamp_len :: "ssh_scp \<Rightarrow> size_t \<Rightarrow> size_t" where
  \<comment> \<open>\<^verbatim>\<open>if (scp->processed + len > scp->filelen) len = scp->filelen - scp->processed;\<close>\<close>
  "clamp_len scp len =
     (if processed scp + len > filelen scp then filelen scp - processed scp else len)"

definition ssh_scp_write :: "ssh_scp \<Rightarrow> string \<Rightarrow> size_t \<Rightarrow> int \<times> ssh_scp" where
  "ssh_scp_write scp buffer len =
     (if state scp \<noteq> SSH_SCP_WRITE_WRITING then
        (SSH_ERROR, scp\<lparr>session :=
           ssh_set_error (session scp) ''ssh_scp_write called under invalid state''\<rparr>)
      else
        (let len1 = clamp_len scp len;
             s1 = channel_poll (session scp);
             (w, s2) = channel_write s1 buffer (unat len1) in
         if w \<noteq> SSH_ERROR then
           (let scp1 = scp\<lparr>session := s2, processed := processed scp + word_of_int w\<rparr> in
            if processed scp1 = filelen scp1 then
              (SSH_OK, scp1\<lparr>processed := 0, filelen := 0, state := SSH_SCP_WRITE_INITED\<rparr>)
            else (SSH_OK, scp1))
         else (SSH_ERROR, scp\<lparr>session := s2, state := SSH_SCP_ERROR\<rparr>)))"

subsection \<open>Reading a control line\<close>

text \<open>
  The loop of \<^verbatim>\<open>ssh_scp_read_string\<close>: \<open>lim\<close> is \<^verbatim>\<open>len - 1\<close>, \<open>r\<close> the number of bytes
  stored, \<open>err\<close> the result of the last \<^verbatim>\<open>channel_read\<close>, \<open>buffer\<close> the bytes
  \<^verbatim>\<open>buffer[0..r-1]\<close>. The byte tested against the newline is \<^verbatim>\<open>buffer[r-1]\<close>, the last
  one stored.
\<close>

function read_string_loop ::
  "nat \<Rightarrow> nat \<Rightarrow> int \<Rightarrow> string \<Rightarrow> ssh_session \<Rightarrow> int \<times> string \<times> ssh_session" where
  "read_string_loop lim r err buffer s =
     (if r < lim then
        (case channel_read s 1 of
           (err1, bs, s1) \<Rightarrow>
             if err1 = SSH_ERROR then (err1, buffer, s1)
             else if err1 = 0 then
               (SSH_ERROR, buffer, ssh_set_error s1 ''End of file while reading string'')
             else if last (buffer @ bs) = LF then (err1, buffer @ bs, s1)
             else read_string_loop lim (r + 1) err1 (buffer @ bs) s1)
      else (err, buffer, s))"
  by pat_completeness auto
termination
  by (relation "measure (\<lambda>(lim, r, err, buffer, s). lim - r)") auto

declare read_string_loop.simps [simp del]

text \<open>
  \<^verbatim>\<open>ssh_scp_read_string(scp, buffer, len)\<close> returns the result and the part of the caller's
  buffer it has written: the bytes read and the terminating NUL stored at \<^verbatim>\<open>buffer[r]\<close>.
  The bound \<^verbatim>\<open>len - 1\<close> is computed on \<^verbatim>\<open>size_t\<close>.
\<close>

definition ssh_scp_read_string :: "ssh_scp \<Rightarrow> size_t \<Rightarrow> int \<times> string \<times> ssh_scp" where
  "ssh_scp_read_string scp len =
     (case read_string_loop (unat (len - 1)) 0 SSH_OK [] (session scp) of
        (err, buffer, s1) \<Rightarrow> (err, buffer @ [NUL], scp\<lparr>session := s1\<rparr>))"

subsection \<open>Pulling\<close>

text \<open>
  \<^verbatim>\<open>strtoull(tmp, NULL, 10)\<close> of the C library: white space is skipped, a sign is
  accepted, the digits are read as far as they go (none gives 0), a value beyond the
  range gives \<^verbatim>\<open>ULLONG_MAX\<close>, and a minus sign negates the value in the unsigned type.
\<close>

definition isspace :: "char \<Rightarrow> bool" where
  "isspace c = (c \<in> set [CHR 0x20, CHR 0x09, CHR 0x0A, CHR 0x0B, CHR 0x0C, CHR 0x0D])"

definition isdigit :: "char \<Rightarrow> bool" where
  "isdigit c = (48 \<le> (of_char c :: nat) \<and> (of_char c :: nat) \<le> 57)"

definition digits_value :: "string \<Rightarrow> nat" where
  "digits_value ds = foldl (\<lambda>acc c. 10 * acc + (of_char c - 48)) 0 ds"

definition strtoull :: "string \<Rightarrow> size_t" where
  "strtoull str =
     (let s1 = dropWhile isspace str;
          neg = (s1 \<noteq> [] \<and> hd s1 = CHR ''-'');
          s2 = (if s1 \<noteq> [] \<and> (hd s1 = CHR ''-'' \<or> hd s1 = CHR ''+'') then tl s1 else s1);
          v = digits_value (takeWhile isdigit s2)
      in if v > 2 ^ 64 - 1 then - 1
         else if neg then - word_of_nat v
         else word_of_nat v)"

text \<open>
  The idiom \<^verbatim>\<open>p = strchr(p, c); if (p == NULL) goto error; *p = 0; p++;\<close> on a C string:
  no result when the character is missing, otherwise the string cut before the
  character and the string that starts after it.
\<close>

definition split_at :: "char \<Rightarrow> string \<Rightarrow> (string \<times> string) option" where
  "split_at c str =
     (if c \<in> set str
      then Some (takeWhile (\<lambda>x. x \<noteq> c) str, tl (dropWhile (\<lambda>x. x \<noteq> c) str))
      else None)"

text \<open>
  The label \<^verbatim>\<open>error:\<close> of \<^verbatim>\<open>ssh_scp_pull_request\<close>. \<open>md\<close> is the local \<^verbatim>\<open>mode\<close>, NULL or
  the copy made by \<^verbatim>\<open>strdup\<close>; the local \<^verbatim>\<open>name\<close> is still NULL on every path that
  leads here. \<open>msg\<close> is the C string found in the buffer at that moment.
\<close>

definition parse_error :: "ssh_scp \<Rightarrow> string option \<Rightarrow> string \<Rightarrow> int \<times> ssh_scp" where
  "parse_error scp md msg =
     (SSH_ERROR, scp\<lparr>session :=
        ssh_set_error (SAFE_FREE md (session scp))
          (''Parsing error while parsing message: '' @ msg)\<rparr>)"

text \<open>
  The buffer returned by \<open>ssh_scp_read_string\<close> ends with the NUL, so it is never
  empty and \<^verbatim>\<open>buffer[0]\<close> is its head. The two copies made by \<^verbatim>\<open>strdup\<close> are not
  checked by the source and are taken to succeed. For a directory the source stores the
  character constant \<^verbatim>\<open>'0'\<close> in \<^verbatim>\<open>filelen\<close>.
\<close>

definition ssh_scp_pull_request :: "ssh_scp \<Rightarrow> int \<times> ssh_scp" where
  "ssh_scp_pull_request scp =
     (if state scp \<noteq> SSH_SCP_READ_INITED then
        (SSH_ERROR, scp\<lparr>session :=
           ssh_set_error (session scp) ''ssh_scp_pull_request called under invalid state''\<rparr>)
      else
        (case ssh_scp_read_string scp 4096 of
           (err, buffer, scp1) \<Rightarrow>
             if err = SSH_ERROR then (err, scp1)
             else if hd buffer = CHR ''C'' \<or> hd buffer = CHR ''D'' then
               (case split_at CHR '' '' (c_str buffer) of
                  None \<Rightarrow> parse_error scp1 None (c_str buffer)
                | Some (f1, p1) \<Rightarrow>
                    (let md = tl f1;
                         scp2 = scp1\<lparr>session := strdup_ok (session scp1)\<rparr> in
                     case split_at CHR '' '' p1 of
                       None \<Rightarrow> parse_error scp2 (Some md) f1
                     | Some (tmp, p2) \<Rightarrow>
                         (let sz = strtoull tmp in
                          case split_at LF p2 of
                            None \<Rightarrow> parse_error scp2 (Some md) f1
                          | Some (name, p3) \<Rightarrow>
                              (let s3 = SAFE_FREE (request_mode scp2)
                                          (SAFE_FREE (request_name scp2)
                                             (strdup_ok (session scp2)));
                                   scp3 = scp2\<lparr>session := s3, request_mode := Some md,
                                               request_name := Some name\<rparr>;
                                   scp4 = (if hd buffer = CHR ''C''
                                           then scp3\<lparr>filelen := sz,
                                                     request_type := SSH_SCP_REQUEST_NEWFILE\<rparr>
                                           else scp3\<lparr>filelen := of_char CHR ''0'',
                                                     request_type := SSH_SCP_REQUEST_NEWDIR\<rparr>)
                               in (request_type scp4,
                                   scp4\<lparr>state := SSH_SCP_READ_REQUESTED, processed := 0\<rparr>)))))
             else
               (SSH_ERROR, scp1\<lparr>session :=
                  ssh_set_error (session scp1) (''Unhandled message: '' @ c_str buffer)\<rparr>)))"

definition ssh_scp_deny_request :: "ssh_scp \<Rightarrow> string \<Rightarrow> int \<times> ssh_scp" where
  "ssh_scp_deny_request scp reason =
     (if state scp \<noteq> SSH_SCP_READ_REQUESTED then
        (SSH_ERROR, scp\<lparr>session :=
           ssh_set_error (session scp) ''ssh_scp_deny_request called under invalid state''\<rparr>)
      else
        (let buffer = snprintf 4096 (CHR 0x02 # reason @ [LF]);
             (err, s1) = channel_write (session scp) buffer (strlen buffer) in
         if err = SSH_ERROR then (SSH_ERROR, scp\<lparr>session := s1\<rparr>)
         else (SSH_OK, scp\<lparr>session := s1, state := SSH_SCP_READ_INITED\<rparr>)))"

definition ssh_scp_accept_request :: "ssh_scp \<Rightarrow> int \<times> ssh_scp" where
  "ssh_scp_accept_request scp =
     (if state scp \<noteq> SSH_SCP_READ_REQUESTED then
        (SSH_ERROR, scp\<lparr>session :=
           ssh_set_error (session scp) ''ssh_scp_deny_request called under invalid state''\<rparr>)
      else
        (let buffer = [NUL];
             (err, s1) = channel_write (session scp) buffer 1 in
         if err = SSH_ERROR then (SSH_ERROR, scp\<lparr>session := s1\<rparr>)
         else if request_type scp = SSH_SCP_REQUEST_NEWFILE then
           (SSH_OK, scp\<lparr>session := s1, state := SSH_SCP_READ_READING\<rparr>)
         else (SSH_OK, scp\<lparr>session := s1, state := SSH_SCP_READ_INITED\<rparr>)))"

text \<open>
  \<^verbatim>\<open>ssh_scp_read(scp, buffer, size)\<close> returns the result and the bytes stored in the
  caller's buffer. \<open>ssh_scp_read_chunk\<close> is the function from its state check to its
  end, which runs after the optional accept step.
\<close>

definition ssh_scp_read_chunk :: "ssh_scp \<Rightarrow> size_t \<Rightarrow> int \<times> string \<times> ssh_scp" where
  "ssh_scp_read_chunk scp sz =
     (if state scp \<noteq> SSH_SCP_READ_READING then
        (SSH_ERROR, [], scp\<lparr>session :=
           ssh_set_error (session scp) ''ssh_scp_read called under invalid state''\<rparr>)
      else
        (let sz1 = clamp_len scp sz;
             sz2 = (if sz1 > 65536 then 65536 else sz1);
             (r, bs, s1) = channel_read (session scp) (unat sz2) in
         if r \<noteq> SSH_ERROR then
           (let scp1 = scp\<lparr>session := s1, processed := processed scp + word_of_int r\<rparr> in
            if processed scp1 = filelen scp1 then
              (r, bs, scp1\<lparr>processed := 0, filelen := 0, state := SSH_SCP_READ_INITED\<rparr>)
            else (r, bs, scp1))
         else (SSH_ERROR, [], scp\<lparr>session := s1, state := SSH_SCP_ERROR\<rparr>)))"

definition ssh_scp_read :: "ssh_scp \<Rightarrow> size_t \<Rightarrow> int \<times> string \<times> ssh_scp" where
  "ssh_scp_read scp sz =
     (if state scp = SSH_SCP_READ_REQUESTED \<and> request_type scp = SSH_SCP_REQUEST_NEWFILE then
        (case ssh_scp_accept_request scp of
           (r, scp1) \<Rightarrow> if r = SSH_ERROR then (r, [], scp1) else ssh_scp_read_chunk scp1 sz)
      else ssh_scp_read_chunk scp sz)"

definition ssh_scp_request_get_filename :: "ssh_scp \<Rightarrow> string option" where
  "ssh_scp_request_get_filename scp = request_name scp"

definition ssh_scp_request_get_permissions :: "ssh_scp \<Rightarrow> string option" where
  "ssh_scp_request_get_permissions scp = request_mode scp"

definition ssh_scp_request_get_size :: "ssh_scp \<Rightarrow> size_t" where
  "ssh_scp_request_get_size scp = filelen scp"

section \<open>Properties\<close>

subsection \<open>Vocabulary of the statements\<close>

text \<open>
  A call is rejected when it returns \<open>SSH_ERROR\<close>, has made no channel call, has used
  none of the answers of the transport and has left the state field as it was.
\<close>

definition rejected :: "ssh_scp \<Rightarrow> int \<Rightarrow> ssh_scp \<Rightarrow> bool" where
  "rejected scp r scp' =
     (r = SSH_ERROR \<and> calls (session scp') = calls (session scp)
      \<and> outcomes (session scp') = outcomes (session scp)
      \<and> write_replies (session scp') = write_replies (session scp)
      \<and> read_replies (session scp') = read_replies (session scp)
      \<and> state scp' = state scp)"

text \<open>A transport that answers nothing, and a session that has reached the error state.\<close>

definition silent :: ssh_session where
  "silent = \<lparr>outcomes = [], write_replies = [], read_replies = [], calls = [],
             error_message = [], heap_blocks = 0\<rparr>"

definition errored :: ssh_scp where
  "errored = (zero_scp silent)\<lparr>state := SSH_SCP_ERROR, channel := True\<rparr>"

text \<open>A pull session to which the peer has announced the file \<open>x\<close> of 10 bytes.\<close>

definition file_requested :: ssh_scp where
  "file_requested =
     (zero_scp (silent\<lparr>write_replies := [Some 1], read_replies := [Some ''abc'']\<rparr>))
       \<lparr>mode := SSH_SCP_READ, channel := True, location := Some ''/tmp/src'',
        state := SSH_SCP_READ_REQUESTED, filelen := 10,
        request_type := SSH_SCP_REQUEST_NEWFILE, request_name := Some ''x'',
        request_mode := Some ''0644''\<rparr>"

text \<open>A push session in the middle of a file of 10 bytes; the channel takes 5 bytes.\<close>

definition writing :: ssh_scp where
  "writing =
     (zero_scp (silent\<lparr>write_replies := [Some 5]\<rparr>))
       \<lparr>mode := SSH_SCP_WRITE, channel := True, location := Some ''/tmp/dst'',
        state := SSH_SCP_WRITE_WRITING, filelen := 10\<rparr>"

text \<open>
  The transport after \<open>n\<close> more reads of one byte, when the answers \<open>rest\<close> are left.
\<close>

definition after_bytes :: "ssh_session \<Rightarrow> nat \<Rightarrow> string option list \<Rightarrow> ssh_session" where
  "after_bytes s n rest =
     s\<lparr>read_replies := rest, calls := calls s @ replicate n (Channel_read 1)\<rparr>"

text \<open>
  Two transports for a buffer of 4 bytes: one delivers four letters before the newline,
  the other ends the stream after one letter.
\<close>

definition overlong :: ssh_scp where
  "overlong =
     zero_scp (silent\<lparr>read_replies :=
       [Some ''A'', Some ''B'', Some ''C'', Some ''D'', Some [LF]]\<rparr>)"

definition cut_short :: ssh_scp where
  "cut_short = zero_scp (silent\<lparr>read_replies := [Some ''A'', Some []]\<rparr>)"

text \<open>
  A pull session whose peer sends the line \<open>Xgarbage\<close>, and a session in a given
  state on a transport where every call fails.
\<close>

definition garbage_pull :: ssh_scp where
  "garbage_pull =
     (zero_scp (silent\<lparr>read_replies := map (\<lambda>c. Some [c]) (''Xgarbage'' @ [LF])\<rparr>))
       \<lparr>mode := SSH_SCP_READ, channel := True, location := Some ''/tmp/src'',
        state := SSH_SCP_READ_INITED\<rparr>"

definition in_state :: "ssh_scp_states \<Rightarrow> ssh_scp" where
  "in_state st = (zero_scp silent)\<lparr>channel := True, state := st\<rparr>"

text \<open>A transport on which the next five calls that succeed or fail succeed.\<close>

definition ready :: ssh_session where
  "ready = silent\<lparr>outcomes := [True, True, True, True, True]\<rparr>"

text \<open>A pull session whose peer sends a file header without any space.\<close>

definition no_space_pull :: ssh_scp where
  "no_space_pull =
     (zero_scp (silent\<lparr>read_replies := map (\<lambda>c. Some [c]) (''C0644'' @ [LF])\<rparr>))
       \<lparr>mode := SSH_SCP_READ, channel := True, location := Some ''/tmp/src'',
        state := SSH_SCP_READ_INITED\<rparr>"

text \<open>
  A peer that lets a pull session start and then announces \<open>line\<close>; the session right
  after \<open>ssh_scp_init\<close> on that peer; and the session obtained from \<open>ssh_scp_new\<close>,
  \<open>ssh_scp_init\<close> and one \<open>ssh_scp_pull_request\<close>.
\<close>

definition peer :: "string \<Rightarrow> ssh_session" where
  "peer line =
     silent\<lparr>outcomes := [True, True, True, True, True], write_replies := [Some 100],
            read_replies := Some [NUL] # map (\<lambda>c. Some [c]) (line @ [LF])\<rparr>"

definition inited :: "string \<Rightarrow> ssh_scp" where
  "inited line =
     (zero_scp silent)
       \<lparr>session := silent\<lparr>write_replies := [Some 100],
           read_replies := map (\<lambda>c. Some [c]) (line @ [LF]),
           calls := [Channel_new, Channel_open_session,
                     Channel_request_exec ''scp -f /tmp/src'', Channel_read 1],
           heap_blocks := 2\<rparr>,
        mode := SSH_SCP_READ, channel := True, location := Some ''/tmp/src'',
        state := SSH_SCP_READ_INITED\<rparr>"

definition pulled :: "string \<Rightarrow> ssh_scp" where
  "pulled line =
     (case fst (ssh_scp_new (peer line) SSH_SCP_READ ''/tmp/src'') of
        None \<Rightarrow> zero_scp silent
      | Some scp \<Rightarrow> snd (ssh_scp_pull_request (snd (ssh_scp_init NUL scp))))"

text \<open>The channel calls made between the session \<open>scp\<close> and the later session \<open>scp'\<close>.\<close>

definition new_calls :: "ssh_scp \<Rightarrow> ssh_scp \<Rightarrow> channel_call list" where
  "new_calls scp scp' = drop (length (calls (session scp))) (calls (session scp'))"

text \<open>
  The number of bytes \<open>ssh_scp_read\<close> asks the channel for: the clamp to what is left
  of the file, then the cut to 65536.
\<close>

definition read_len :: "ssh_scp \<Rightarrow> size_t \<Rightarrow> size_t" where
  "read_len scp sz = (if clamp_len scp sz > 65536 then 65536 else clamp_len scp sz)"

text \<open>
  A pull session that has read 5 bytes of a file of 10; the channel holds 9 more bytes,
  the last 4 of them after the end of the file.
\<close>

definition half_read :: ssh_scp where
  "half_read =
     (zero_scp (silent\<lparr>read_replies := [Some ''123456789'']\<rparr>))
       \<lparr>mode := SSH_SCP_READ, channel := True, location := Some ''/tmp/src'',
        state := SSH_SCP_READ_READING, filelen := 10, processed := 5,
        request_type := SSH_SCP_REQUEST_NEWFILE, request_name := Some ''x'',
        request_mode := Some ''0644''\<rparr>"

text \<open>A pull session whose peer closes the stream in the middle of a file header.\<close>

definition cut_pull :: ssh_scp where
  "cut_pull =
     (zero_scp (silent\<lparr>read_replies := map (\<lambda>c. Some [c]) ''C0644 10 x'' @ [Some []]\<rparr>))
       \<lparr>mode := SSH_SCP_READ, channel := True, location := Some ''/tmp/src'',
        state := SSH_SCP_READ_INITED\<rparr>"

subsection \<open>Calls outside the precondition state\<close>

lemma rejected_set_error [simp]:
  "rejected scp SSH_ERROR (scp\<lparr>session := ssh_set_error (session scp) msg\<rparr>)"
  by (simp add: rejected_def ssh_set_error_def)

lemma init_rejected:
  "state scp \<noteq> SSH_SCP_NEW \<Longrightarrow>
     rejected scp (fst (ssh_scp_init c scp)) (snd (ssh_scp_init c scp))"
  by (simp add: ssh_scp_init_def)

lemma push_directory_rejected:
  "state scp \<noteq> SSH_SCP_WRITE_INITED \<Longrightarrow>
     rejected scp (fst (ssh_scp_push_directory c scp d p))
       (snd (ssh_scp_push_directory c scp d p))"
  by (simp add: ssh_scp_push_directory_def)

lemma leave_directory_rejected:
  "state scp \<noteq> SSH_SCP_WRITE_INITED \<Longrightarrow>
     rejected scp (fst (ssh_scp_leave_directory c scp)) (snd (ssh_scp_leave_directory c scp))"
  by (simp add: ssh_scp_leave_directory_def)

lemma push_file_rejected:
  "state scp \<noteq> SSH_SCP_WRITE_INITED \<Longrightarrow>
     rejected scp (fst (ssh_scp_push_file c scp f n p)) (snd (ssh_scp_push_file c scp f n p))"
  by (simp add: ssh_scp_push_file_def)

lemma write_rejected:
  "state scp \<noteq> SSH_SCP_WRITE_WRITING \<Longrightarrow>
     rejected scp (fst (ssh_scp_write scp b n)) (snd (ssh_scp_write scp b n))"
  by (simp add: ssh_scp_write_def)

lemma pull_request_rejected:
  "state scp \<noteq> SSH_SCP_READ_INITED \<Longrightarrow>
     rejected scp (fst (ssh_scp_pull_request scp)) (snd (ssh_scp_pull_request scp))"
  by (simp add: ssh_scp_pull_request_def)

lemma deny_request_rejected:
  "state scp \<noteq> SSH_SCP_READ_REQUESTED \<Longrightarrow>
     rejected scp (fst (ssh_scp_deny_request scp m)) (snd (ssh_scp_deny_request scp m))"
  by (simp add: ssh_scp_deny_request_def)

lemma accept_request_rejected:
  "state scp \<noteq> SSH_SCP_READ_REQUESTED \<Longrightarrow>
     rejected scp (fst (ssh_scp_accept_request scp)) (snd (ssh_scp_accept_request scp))"
  by (simp add: ssh_scp_accept_request_def)

lemma read_chunk_rejected:
  "state scp \<noteq> SSH_SCP_READ_READING \<Longrightarrow>
     rejected scp (fst (ssh_scp_read_chunk scp n)) (snd (snd (ssh_scp_read_chunk scp n)))"
  by (simp add: ssh_scp_read_chunk_def)

lemma read_rejected:
  "state scp \<noteq> SSH_SCP_READ_READING \<Longrightarrow>
   \<not> (state scp = SSH_SCP_READ_REQUESTED \<and> request_type scp = SSH_SCP_REQUEST_NEWFILE) \<Longrightarrow>
     rejected scp (fst (ssh_scp_read scp n)) (snd (snd (ssh_scp_read scp n)))"
  by (auto simp add: ssh_scp_read_def read_chunk_rejected)

text \<open>
  Claim C5. Every operation called in a state other than its precondition state returns
  \<open>SSH_ERROR\<close> without a channel call: the list of channel calls and the answers the
  transport still holds are the same after the call, and so is the state. For
  \<open>ssh_scp_read\<close> the precondition states are \<open>SSH_SCP_READ_READING\<close> and
  \<open>SSH_SCP_READ_REQUESTED\<close> with a pending file request. The error state is the
  precondition of no operation, so every operation is rejected there.
\<close>

theorem state_precondition_failure:
  "(state scp \<noteq> SSH_SCP_NEW \<longrightarrow>
      rejected scp (fst (ssh_scp_init c scp)) (snd (ssh_scp_init c scp)))
   \<and> (state scp \<noteq> SSH_SCP_WRITE_INITED \<longrightarrow>
      rejected scp (fst (ssh_scp_push_directory c scp d p))
        (snd (ssh_scp_push_directory c scp d p)))
   \<and> (state scp \<noteq> SSH_SCP_WRITE_INITED \<longrightarrow>
      rejected scp (fst (ssh_scp_leave_directory c scp)) (snd (ssh_scp_leave_directory c scp)))
   \<and> (state scp \<noteq> SSH_SCP_WRITE_INITED \<longrightarrow>
      rejected scp (fst (ssh_scp_push_file c scp f n p)) (snd (ssh_scp_push_file c scp f n p)))
   \<and> (state scp \<noteq> SSH_SCP_WRITE_WRITING \<longrightarrow>
      rejected scp (fst (ssh_scp_write scp b n)) (snd (ssh_scp_write scp b n)))
   \<and> (state scp \<noteq> SSH_SCP_READ_INITED \<longrightarrow>
      rejected scp (fst (ssh_scp_pull_request scp)) (snd (ssh_scp_pull_request scp)))
   \<and> (state scp \<noteq> SSH_SCP_READ_REQUESTED \<longrightarrow>
      rejected scp (fst (ssh_scp_deny_request scp m)) (snd (ssh_scp_deny_request scp m)))
   \<and> (state scp \<noteq> SSH_SCP_READ_REQUESTED \<longrightarrow>
      rejected scp (fst (ssh_scp_accept_request scp)) (snd (ssh_scp_accept_request scp)))
   \<and> (state scp \<noteq> SSH_SCP_READ_READING
        \<and> \<not> (state scp = SSH_SCP_READ_REQUESTED \<and> request_type scp = SSH_SCP_REQUEST_NEWFILE) \<longrightarrow>
      rejected scp (fst (ssh_scp_read scp n)) (snd (snd (ssh_scp_read scp n))))"
  by (simp add: init_rejected push_directory_rejected leave_directory_rejected
      push_file_rejected write_rejected pull_request_rejected deny_request_rejected
      accept_request_rejected read_rejected)

theorem state_precondition_failure_witness:
  "state errored = SSH_SCP_ERROR
   \<and> rejected errored (fst (ssh_scp_init NUL errored)) (snd (ssh_scp_init NUL errored))
   \<and> rejected errored (fst (ssh_scp_push_directory NUL errored ''d'' ''0755''))
        (snd (ssh_scp_push_directory NUL errored ''d'' ''0755''))
   \<and> rejected errored (fst (ssh_scp_leave_directory NUL errored))
        (snd (ssh_scp_leave_directory NUL errored))
   \<and> rejected errored (fst (ssh_scp_push_file NUL errored ''f'' 5 ''0755''))
        (snd (ssh_scp_push_file NUL errored ''f'' 5 ''0755''))
   \<and> rejected errored (fst (ssh_scp_write errored ''hello'' 5))
        (snd (ssh_scp_write errored ''hello'' 5))
   \<and> rejected errored (fst (ssh_scp_pull_request errored)) (snd (ssh_scp_pull_request errored))
   \<and> rejected errored (fst (ssh_scp_deny_request errored ''no''))
        (snd (ssh_scp_deny_request errored ''no''))
   \<and> rejected errored (fst (ssh_scp_accept_request errored))
        (snd (ssh_scp_accept_request errored))
   \<and> rejected errored (fst (ssh_scp_read errored 5)) (snd (snd (ssh_scp_read errored 5)))"
proof -
  have st: "state errored = SSH_SCP_ERROR"
    by (simp add: errored_def zero_scp_def)
  show ?thesis
    using state_precondition_failure
      [of errored NUL "''d''" "''0755''" "''f''" 5 "''hello''" "''no''"]
    by (simp add: st)
qed

subsection \<open>Reading before accepting\<close>

lemma SSH_codes [simp]:
  "SSH_OK \<noteq> SSH_ERROR" "SSH_ERROR \<noteq> SSH_OK" "int k \<noteq> SSH_ERROR" "SSH_ERROR \<noteq> int k"
  by (simp_all add: SSH_OK_def SSH_ERROR_def)

lemma read_in_reading:
  "state scp = SSH_SCP_READ_READING \<Longrightarrow> ssh_scp_read scp sz = ssh_scp_read_chunk scp sz"
  by (simp add: ssh_scp_read_def)

lemma channel_write_calls:
  "calls (snd (channel_write s data len)) = calls s @ [Channel_write (take len data) len]"
  by (simp add: channel_write_def Let_def split: list.splits option.splits)

text \<open>
  Claim C6. In \<open>SSH_SCP_READ_REQUESTED\<close> with a pending file request,
  \<open>ssh_scp_read\<close> first hands the single byte 0x00 to \<open>channel_write\<close>; unless that
  write fails, it goes on exactly as the read called on the same session in
  \<open>SSH_SCP_READ_READING\<close>. With any other pending request the call is rejected: it
  returns \<open>SSH_ERROR\<close>, makes no channel call and leaves the state as it was.
\<close>

theorem read_auto_accept:
  "state scp = SSH_SCP_READ_REQUESTED \<Longrightarrow>
     (request_type scp = SSH_SCP_REQUEST_NEWFILE \<longrightarrow>
        (case channel_write (session scp) [NUL] 1 of
           (err, s1) \<Rightarrow>
             calls s1 = calls (session scp) @ [Channel_write [NUL] 1]
             \<and> ssh_scp_read scp sz =
                 (if err = SSH_ERROR then (SSH_ERROR, [], scp\<lparr>session := s1\<rparr>)
                  else ssh_scp_read (scp\<lparr>session := s1, state := SSH_SCP_READ_READING\<rparr>) sz)))
     \<and> (request_type scp \<noteq> SSH_SCP_REQUEST_NEWFILE \<longrightarrow>
        rejected scp (fst (ssh_scp_read scp sz)) (snd (snd (ssh_scp_read scp sz))))"
proof (intro conjI impI)
  assume st: "state scp = SSH_SCP_READ_REQUESTED"
    and rt: "request_type scp = SSH_SCP_REQUEST_NEWFILE"
  obtain err s1 where w: "channel_write (session scp) [NUL] 1 = (err, s1)"
    by (cases "channel_write (session scp) [NUL] 1")
  have c: "calls s1 = calls (session scp) @ [Channel_write [NUL] 1]"
    using channel_write_calls [of "session scp" "[NUL]" 1] w by simp
  have a: "ssh_scp_accept_request scp =
      (if err = SSH_ERROR then (SSH_ERROR, scp\<lparr>session := s1\<rparr>)
       else (SSH_OK, scp\<lparr>session := s1, state := SSH_SCP_READ_READING\<rparr>))"
    using w by (simp add: ssh_scp_accept_request_def st rt)
  have "ssh_scp_read scp sz =
      (if err = SSH_ERROR then (SSH_ERROR, [], scp\<lparr>session := s1\<rparr>)
       else ssh_scp_read (scp\<lparr>session := s1, state := SSH_SCP_READ_READING\<rparr>) sz)"
    by (simp add: ssh_scp_read_def [of scp] st rt a read_in_reading)
  with c w show "case channel_write (session scp) [NUL] 1 of
           (err, s1) \<Rightarrow>
             calls s1 = calls (session scp) @ [Channel_write [NUL] 1]
             \<and> ssh_scp_read scp sz =
                 (if err = SSH_ERROR then (SSH_ERROR, [], scp\<lparr>session := s1\<rparr>)
                  else ssh_scp_read (scp\<lparr>session := s1, state := SSH_SCP_READ_READING\<rparr>) sz)"
    by simp
next
  assume "state scp = SSH_SCP_READ_REQUESTED" "request_type scp \<noteq> SSH_SCP_REQUEST_NEWFILE"
  then show "rejected scp (fst (ssh_scp_read scp sz)) (snd (snd (ssh_scp_read scp sz)))"
    by (simp add: read_rejected)
qed

theorem read_auto_accept_witness:
  "state file_requested = SSH_SCP_READ_REQUESTED
   \<and> request_type file_requested = SSH_SCP_REQUEST_NEWFILE
   \<and> fst (ssh_scp_read file_requested 3) = 3
   \<and> fst (snd (ssh_scp_read file_requested 3)) = ''abc''
   \<and> state (snd (snd (ssh_scp_read file_requested 3))) = SSH_SCP_READ_READING
   \<and> calls (session (snd (snd (ssh_scp_read file_requested 3)))) =
       [Channel_write [NUL] 1, Channel_read 3]
   \<and> rejected (file_requested\<lparr>request_type := SSH_SCP_REQUEST_NEWDIR\<rparr>)
       (fst (ssh_scp_read (file_requested\<lparr>request_type := SSH_SCP_REQUEST_NEWDIR\<rparr>) 3))
       (snd (snd (ssh_scp_read (file_requested\<lparr>request_type := SSH_SCP_REQUEST_NEWDIR\<rparr>) 3)))"
proof -
  have st: "state file_requested = SSH_SCP_READ_REQUESTED"
    and rt: "request_type file_requested = SSH_SCP_REQUEST_NEWFILE"
    by (simp_all add: file_requested_def zero_scp_def)
  have w: "channel_write (session file_requested) [NUL] 1 =
      (1, silent\<lparr>write_replies := [], read_replies := [Some ''abc''],
                 calls := [Channel_write [NUL] 1]\<rparr>)"
    by (simp add: file_requested_def zero_scp_def silent_def channel_write_def)
  have r: "ssh_scp_read file_requested 3 =
      ssh_scp_read (file_requested\<lparr>session := silent\<lparr>write_replies := [],
          read_replies := [Some ''abc''], calls := [Channel_write [NUL] 1]\<rparr>,
        state := SSH_SCP_READ_READING\<rparr>) 3"
    using read_auto_accept [OF st, of 3] rt w by (simp add: SSH_ERROR_def)
  have d: "rejected (file_requested\<lparr>request_type := SSH_SCP_REQUEST_NEWDIR\<rparr>)
       (fst (ssh_scp_read (file_requested\<lparr>request_type := SSH_SCP_REQUEST_NEWDIR\<rparr>) 3))
       (snd (snd (ssh_scp_read (file_requested\<lparr>request_type := SSH_SCP_REQUEST_NEWDIR\<rparr>) 3)))"
    using read_auto_accept [of "file_requested\<lparr>request_type := SSH_SCP_REQUEST_NEWDIR\<rparr>" 3] st
    by (simp add: SSH_SCP_REQUEST_NEWDIR_def SSH_SCP_REQUEST_NEWFILE_def)
  show ?thesis
    apply (simp only: r)
    using d st rt
    by (simp add: ssh_scp_read_def ssh_scp_read_chunk_def file_requested_def zero_scp_def
        silent_def channel_read_def clamp_len_def SSH_ERROR_def)
qed

subsection \<open>The result of a write\<close>

lemma channel_write_range:
  "fst (channel_write s data len) \<noteq> SSH_ERROR \<Longrightarrow>
     0 \<le> fst (channel_write s data len) \<and> fst (channel_write s data len) \<le> int len"
  by (auto simp add: channel_write_def Let_def split: list.splits option.splits)

lemma write_result:
  "state scp = SSH_SCP_WRITE_WRITING \<Longrightarrow>
     fst (ssh_scp_write scp buffer len) =
       (if fst (channel_write (channel_poll (session scp)) buffer (unat (clamp_len scp len)))
             = SSH_ERROR
        then SSH_ERROR else SSH_OK)"
  by (simp add: ssh_scp_write_def Let_def split: prod.splits)

text \<open>
  Claim C9, as amended. A call of \<open>ssh_scp_write\<close> in \<open>SSH_SCP_WRITE_WRITING\<close> that
  does not fail returns \<open>SSH_OK\<close>, which is 0, whatever the number of bytes taken
  from the caller's buffer. That number is the result of \<open>channel_write\<close>; it lies
  between 0 and the clamped length and is only added to \<open>processed\<close>.
\<close>

theorem write_returns_ok:
  "state scp = SSH_SCP_WRITE_WRITING \<Longrightarrow>
   fst (ssh_scp_write scp buffer len) \<noteq> SSH_ERROR \<Longrightarrow>
     fst (ssh_scp_write scp buffer len) = SSH_OK
     \<and> 0 \<le> fst (channel_write (channel_poll (session scp)) buffer (unat (clamp_len scp len)))
     \<and> fst (channel_write (channel_poll (session scp)) buffer (unat (clamp_len scp len)))
         \<le> int (unat (clamp_len scp len))"
proof -
  assume st: "state scp = SSH_SCP_WRITE_WRITING"
    and ok: "fst (ssh_scp_write scp buffer len) \<noteq> SSH_ERROR"
  let ?w = "fst (channel_write (channel_poll (session scp)) buffer (unat (clamp_len scp len)))"
  from ok have w: "?w \<noteq> SSH_ERROR"
    by (simp add: write_result [OF st] split: if_splits)
  then have "fst (ssh_scp_write scp buffer len) = SSH_OK"
    by (simp add: write_result [OF st])
  with channel_write_range [OF w] show ?thesis by simp
qed

lemma writing_facts:
  "state writing = SSH_SCP_WRITE_WRITING"
  "clamp_len writing 5 = 5"
  "channel_write (channel_poll (session writing)) ''hello'' 5 =
     (5, silent\<lparr>write_replies := [], calls := [Channel_poll, Channel_write ''hello'' 5]\<rparr>)"
  by (simp_all add: writing_def zero_scp_def silent_def clamp_len_def channel_write_def
      channel_poll_def)

text \<open>
  Claim C9 as stated fails: with 10 bytes declared and none processed, writing the 5
  bytes of \<open>hello\<close> succeeds, the channel takes all 5 and \<open>processed\<close> grows by 5,
  but the value returned is 0 and not 5.
\<close>

theorem write_returns_count_counterexample:
  "fst (channel_write (channel_poll (session writing)) ''hello'' (unat (clamp_len writing 5))) = 5
   \<and> processed (snd (ssh_scp_write writing ''hello'' 5)) = processed writing + 5
   \<and> fst (ssh_scp_write writing ''hello'' 5) \<noteq> SSH_ERROR
   \<and> fst (ssh_scp_write writing ''hello'' 5) \<noteq> 5"
  by (simp add: ssh_scp_write_def writing_facts)
     (simp add: writing_def zero_scp_def SSH_OK_def SSH_ERROR_def)

theorem write_returns_ok_witness:
  "state writing = SSH_SCP_WRITE_WRITING
   \<and> fst (ssh_scp_write writing ''hello'' 5) \<noteq> SSH_ERROR
   \<and> fst (ssh_scp_write writing ''hello'' 5) = SSH_OK"
proof -
  have ok: "fst (ssh_scp_write writing ''hello'' 5) \<noteq> SSH_ERROR"
    by (simp add: write_result writing_facts) (simp add: SSH_ERROR_def)
  from write_returns_ok [OF writing_facts(1) ok] ok show ?thesis
    by (simp add: writing_facts)
qed

subsection \<open>Facts about the single operations\<close>

lemma free_zero_scp:
  "ssh_scp_free (zero_scp s\<lparr>session := s'\<rparr>) = free_block s'"
  by (simp add: ssh_scp_free_def zero_scp_def SAFE_FREE_def)

lemma alloc_heap:
  "heap_blocks (snd (alloc s)) = (if fst (alloc s) then Suc (heap_blocks s) else heap_blocks s)"
  "calls (snd (alloc s)) = calls s"
  by (simp_all add: alloc_def next_outcome_def split: list.splits)

lemma new_invalid_mode:
  assumes "md \<noteq> SSH_SCP_WRITE" "md \<noteq> SSH_SCP_READ"
  shows "fst (ssh_scp_new sess md loc) = None"
    and "heap_blocks (snd (ssh_scp_new sess md loc)) = heap_blocks sess"
    and "calls (snd (ssh_scp_new sess md loc)) = calls sess"
proof -
  obtain ok s1 where a: "alloc sess = (ok, s1)" by (cases "alloc sess")
  from alloc_heap [of sess] a
  have h: "heap_blocks s1 = (if ok then Suc (heap_blocks sess) else heap_blocks sess)"
    and c: "calls s1 = calls sess" by simp_all
  show "fst (ssh_scp_new sess md loc) = None"
    using assms by (simp add: ssh_scp_new_def a)
  show "heap_blocks (snd (ssh_scp_new sess md loc)) = heap_blocks sess"
    using assms h by (simp add: ssh_scp_new_def a free_zero_scp free_block_def ssh_set_error_def)
  show "calls (snd (ssh_scp_new sess md loc)) = calls sess"
    using assms c by (simp add: ssh_scp_new_def a free_zero_scp free_block_def ssh_set_error_def)
qed

lemma new_mode:
  "fst (ssh_scp_new sess md loc) = Some scp \<Longrightarrow>
     mode scp = md \<and> (md = SSH_SCP_WRITE \<or> md = SSH_SCP_READ)"
  by (auto simp add: ssh_scp_new_def Let_def split: prod.splits if_splits)

lemma mode_init: "mode (snd (ssh_scp_init c scp)) = mode scp"
  by (simp add: ssh_scp_init_def Let_def split: prod.splits)

lemma mode_close: "mode (snd (ssh_scp_close scp)) = mode scp"
  by (simp add: ssh_scp_close_def Let_def split: prod.splits)

lemma mode_push_directory: "mode (snd (ssh_scp_push_directory c scp d p)) = mode scp"
  by (simp add: ssh_scp_push_directory_def Let_def split: prod.splits)

lemma mode_leave_directory: "mode (snd (ssh_scp_leave_directory c scp)) = mode scp"
  by (simp add: ssh_scp_leave_directory_def Let_def split: prod.splits)

lemma mode_push_file: "mode (snd (ssh_scp_push_file c scp f n p)) = mode scp"
  by (simp add: ssh_scp_push_file_def Let_def split: prod.splits)

lemma mode_write: "mode (snd (ssh_scp_write scp b n)) = mode scp"
  by (simp add: ssh_scp_write_def Let_def split: prod.splits)

lemma mode_read_string: "mode (snd (snd (ssh_scp_read_string scp n))) = mode scp"
  by (simp add: ssh_scp_read_string_def split: prod.splits)

lemma mode_pull_request: "mode (snd (ssh_scp_pull_request scp)) = mode scp"
  using mode_read_string [of scp 4096]
  by (auto simp add: ssh_scp_pull_request_def parse_error_def Let_def
      split: prod.splits option.splits)

lemma mode_deny_request: "mode (snd (ssh_scp_deny_request scp m)) = mode scp"
  by (simp add: ssh_scp_deny_request_def Let_def split: prod.splits)

lemma mode_accept_request: "mode (snd (ssh_scp_accept_request scp)) = mode scp"
  by (simp add: ssh_scp_accept_request_def Let_def split: prod.splits)

lemma mode_read_chunk: "mode (snd (snd (ssh_scp_read_chunk scp n))) = mode scp"
  by (simp add: ssh_scp_read_chunk_def Let_def split: prod.splits)

lemma mode_read: "mode (snd (snd (ssh_scp_read scp n))) = mode scp"
  using mode_accept_request [of scp]
  by (auto simp add: ssh_scp_read_def mode_read_chunk split: prod.splits)

lemma init_failure:
  "state scp = SSH_SCP_NEW \<Longrightarrow> fst (ssh_scp_init c scp) = SSH_ERROR \<Longrightarrow>
     state (snd (ssh_scp_init c scp)) = SSH_SCP_ERROR"
  by (auto simp add: ssh_scp_init_def Let_def split: prod.splits if_splits)

lemma push_directory_failure:
  "state scp = SSH_SCP_WRITE_INITED \<Longrightarrow> fst (ssh_scp_push_directory c scp d p) = SSH_ERROR \<Longrightarrow>
     state (snd (ssh_scp_push_directory c scp d p)) = SSH_SCP_ERROR"
  by (auto simp add: ssh_scp_push_directory_def Let_def split: prod.splits if_splits)

lemma leave_directory_failure:
  "state scp = SSH_SCP_WRITE_INITED \<Longrightarrow> fst (ssh_scp_leave_directory c scp) = SSH_ERROR \<Longrightarrow>
     state (snd (ssh_scp_leave_directory c scp)) = SSH_SCP_ERROR"
  by (auto simp add: ssh_scp_leave_directory_def Let_def split: prod.splits if_splits)

lemma push_file_failure:
  "state scp = SSH_SCP_WRITE_INITED \<Longrightarrow> fst (ssh_scp_push_file c scp f n p) = SSH_ERROR \<Longrightarrow>
     state (snd (ssh_scp_push_file c scp f n p)) = SSH_SCP_ERROR"
  by (auto simp add: ssh_scp_push_file_def Let_def split: prod.splits if_splits)

lemma write_failure:
  "state scp = SSH_SCP_WRITE_WRITING \<Longrightarrow> fst (ssh_scp_write scp b n) = SSH_ERROR \<Longrightarrow>
     state (snd (ssh_scp_write scp b n)) = SSH_SCP_ERROR"
  by (auto simp add: ssh_scp_write_def Let_def split: prod.splits if_splits)

lemma channel_read_range:
  "fst (channel_read s n) \<noteq> SSH_ERROR \<Longrightarrow>
     fst (channel_read s n) = int (length (fst (snd (channel_read s n))))
     \<and> length (fst (snd (channel_read s n))) \<le> n"
  by (auto simp add: channel_read_def Let_def split: list.splits option.splits)

lemma read_chunk_failure:
  "state scp = SSH_SCP_READ_READING \<Longrightarrow> fst (ssh_scp_read_chunk scp n) = SSH_ERROR \<Longrightarrow>
     state (snd (snd (ssh_scp_read_chunk scp n))) = SSH_SCP_ERROR"
  by (auto simp add: ssh_scp_read_chunk_def Let_def split: prod.splits if_splits)

lemma state_read_string: "state (snd (snd (ssh_scp_read_string scp n))) = state scp"
  by (simp add: ssh_scp_read_string_def split: prod.splits)

lemma pull_request_failure:
  "fst (ssh_scp_pull_request scp) = SSH_ERROR \<Longrightarrow>
     state (snd (ssh_scp_pull_request scp)) = state scp"
  using state_read_string [of scp 4096]
  by (auto simp add: ssh_scp_pull_request_def parse_error_def Let_def
      SSH_SCP_REQUEST_NEWFILE_def SSH_SCP_REQUEST_NEWDIR_def SSH_ERROR_def
      split: prod.splits option.splits if_splits)

lemma deny_request_failure:
  "fst (ssh_scp_deny_request scp m) = SSH_ERROR \<Longrightarrow>
     state (snd (ssh_scp_deny_request scp m)) = state scp"
  by (auto simp add: ssh_scp_deny_request_def Let_def split: prod.splits if_splits)

lemma accept_request_failure:
  "fst (ssh_scp_accept_request scp) = SSH_ERROR \<Longrightarrow>
     state (snd (ssh_scp_accept_request scp)) = state scp"
  by (auto simp add: ssh_scp_accept_request_def Let_def split: prod.splits if_splits)

lemma read_failure:
  "state scp = SSH_SCP_READ_REQUESTED \<Longrightarrow> request_type scp = SSH_SCP_REQUEST_NEWFILE \<Longrightarrow>
   fst (ssh_scp_read scp n) = SSH_ERROR \<Longrightarrow>
     state (snd (snd (ssh_scp_read scp n))) = SSH_SCP_READ_REQUESTED
     \<or> state (snd (snd (ssh_scp_read scp n))) = SSH_SCP_ERROR"
  by (auto simp add: ssh_scp_read_def ssh_scp_accept_request_def ssh_scp_read_chunk_def Let_def split: prod.splits if_splits)

subsection \<open>Reading a control line from the channel\<close>

lemma channel_read_one:
  "read_replies s = Some (c # cs) # rest \<Longrightarrow>
     channel_read s (Suc 0) =
       (1, [c], s\<lparr>read_replies := rest, calls := calls s @ [Channel_read (Suc 0)]\<rparr>)"
  by (simp add: channel_read_def)

lemma channel_read_eof:
  "read_replies s = Some [] # rest \<Longrightarrow>
     channel_read s n =
       (0, [], s\<lparr>read_replies := rest, calls := calls s @ [Channel_read n]\<rparr>)"
  by (simp add: channel_read_def)

lemma channel_read_fail:
  "read_replies s = [] \<or> (\<exists>rest. read_replies s = None # rest) \<Longrightarrow>
     fst (channel_read s n) = SSH_ERROR \<and> fst (snd (channel_read s n)) = []"
  by (auto simp add: channel_read_def)

lemma loop_bytes:
  "\<forall>b\<in>set bss. b \<noteq> [] \<and> hd b \<noteq> LF \<Longrightarrow>
   read_replies s = map Some bss @ rest \<Longrightarrow> r + length bss \<le> lim \<Longrightarrow>
     read_string_loop lim r err buf s =
       read_string_loop lim (r + length bss) (if bss = [] then err else 1)
         (buf @ map hd bss)
         (s\<lparr>read_replies := rest,
            calls := calls s @ replicate (length bss) (Channel_read 1)\<rparr>)"
proof (induction bss arbitrary: r err buf s)
  case Nil
  then have "s\<lparr>read_replies := rest\<rparr> = s" by (cases s) simp
  then show ?case by simp
next
  case (Cons b bss)
  from Cons.prems(1) obtain c cs where b: "b = c # cs" and c: "c \<noteq> LF"
    by (cases b) auto
  let ?s1 = "s\<lparr>read_replies := map Some bss @ rest, calls := calls s @ [Channel_read 1]\<rparr>"
  have rd: "channel_read s 1 = (1, [c], ?s1)"
    using Cons.prems(2) b by (simp add: channel_read_one)
  have lt: "r < lim" using Cons.prems(3) by simp
  have step: "read_string_loop lim r err buf s = read_string_loop lim (r + 1) 1 (buf @ [c]) ?s1"
    using lt c rd by (subst read_string_loop.simps) (simp add: SSH_ERROR_def)
  have ih: "read_string_loop lim (r + 1) 1 (buf @ [c]) ?s1 =
      read_string_loop lim (r + 1 + length bss) (if bss = [] then 1 else 1)
        ((buf @ [c]) @ map hd bss)
        (?s1\<lparr>read_replies := rest,
            calls := calls ?s1 @ replicate (length bss) (Channel_read 1)\<rparr>)"
    using Cons.prems by (intro Cons.IH) simp_all
  show ?case
    unfolding step using ih by (simp add: b)
qed


lemma loop_exit: "read_string_loop lim lim err buf s = (err, buf, s)"
  by (subst read_string_loop.simps) simp

lemma read_string_overlong:
  assumes "\<forall>b\<in>set bss. b \<noteq> [] \<and> hd b \<noteq> LF"
    and "read_replies (session scp) = map Some bss @ rest"
    and "length bss = unat (len - 1)"
  shows "ssh_scp_read_string scp len =
     (if bss = [] then SSH_OK else 1, map hd bss @ [NUL],
      scp\<lparr>session := after_bytes (session scp) (length bss) rest\<rparr>)"
  using loop_bytes [OF assms(1,2), of 0 "unat (len - 1)" SSH_OK "[]"] assms(3)
  by (simp add: ssh_scp_read_string_def loop_exit after_bytes_def)

lemma read_string_eof:
  assumes "\<forall>b\<in>set bss. b \<noteq> [] \<and> hd b \<noteq> LF"
    and "read_replies (session scp) = map Some bss @ Some [] # rest"
    and "length bss < unat (len - 1)"
  shows "ssh_scp_read_string scp len =
     (SSH_ERROR, map hd bss @ [NUL],
      scp\<lparr>session := ssh_set_error
         (after_bytes (session scp) (Suc (length bss)) rest)
         ''End of file while reading string''\<rparr>)"
proof -
  let ?s = "after_bytes (session scp) (length bss) (Some [] # rest)"
  have rd: "channel_read ?s (Suc 0) = (0, [], after_bytes (session scp) (Suc (length bss)) rest)"
    by (simp add: channel_read_def after_bytes_def replicate_append_same)
  have "read_string_loop (unat (len - 1)) (length bss) (if bss = [] then SSH_OK else 1)
          (map hd bss) ?s =
        (SSH_ERROR, map hd bss,
         ssh_set_error (after_bytes (session scp) (Suc (length bss)) rest)
           ''End of file while reading string'')"
    using assms(3) rd by (subst read_string_loop.simps) (simp add: SSH_ERROR_def)
  then show ?thesis
    using loop_bytes [OF assms(1,2), of 0 "unat (len - 1)" SSH_OK "[]"] assms(3)
    by (simp add: ssh_scp_read_string_def after_bytes_def)
qed

lemma read_string_fail:
  assumes "\<forall>b\<in>set bss. b \<noteq> [] \<and> hd b \<noteq> LF"
    and "read_replies (session scp) = map Some bss @ rest"
    and "rest = [] \<or> hd rest = None"
    and "length bss < unat (len - 1)"
  shows "fst (ssh_scp_read_string scp len) = SSH_ERROR"
    and "fst (snd (ssh_scp_read_string scp len)) = map hd bss @ [NUL]"
proof -
  let ?s = "after_bytes (session scp) (length bss) rest"
  have rr: "read_replies ?s = [] \<or> (\<exists>t. read_replies ?s = None # t)"
    using assms(3) by (cases rest) (auto simp add: after_bytes_def)
  have rd: "fst (channel_read ?s (Suc 0)) = SSH_ERROR"
    using channel_read_fail [OF rr, of "Suc 0"] by simp
  have l: "\<exists>s'. read_string_loop (unat (len - 1)) (length bss) (if bss = [] then SSH_OK else 1)
          (map hd bss) ?s = (SSH_ERROR, map hd bss, s')"
    using assms(4) rd
    by (subst read_string_loop.simps) (auto simp add: split: prod.splits)
  have e: "read_string_loop (unat (len - 1)) 0 SSH_OK [] (session scp) =
      read_string_loop (unat (len - 1)) (length bss) (if bss = [] then SSH_OK else 1)
          (map hd bss) ?s"
    using loop_bytes [OF assms(1,2), of 0 "unat (len - 1)" SSH_OK "[]"] assms(4)
    by (simp add: after_bytes_def)
  from l e show "fst (ssh_scp_read_string scp len) = SSH_ERROR"
    by (auto simp add: ssh_scp_read_string_def)
  from l e show "fst (snd (ssh_scp_read_string scp len)) = map hd bss @ [NUL]"
    by (auto simp add: ssh_scp_read_string_def)
qed

lemma read_string_line:
  assumes "\<forall>b\<in>set bss. b \<noteq> [] \<and> hd b \<noteq> LF"
    and "read_replies (session scp) = map Some bss @ Some (LF # x) # rest"
    and "length bss < unat (len - 1)"
  shows "ssh_scp_read_string scp len =
     (1, map hd bss @ [LF, NUL],
      scp\<lparr>session := after_bytes (session scp) (Suc (length bss)) rest\<rparr>)"
proof -
  let ?s = "after_bytes (session scp) (length bss) (Some (LF # x) # rest)"
  have rd: "channel_read ?s (Suc 0) = (1, [LF], after_bytes (session scp) (Suc (length bss)) rest)"
    by (simp add: channel_read_def after_bytes_def replicate_append_same)
  have "read_string_loop (unat (len - 1)) (length bss) (if bss = [] then SSH_OK else 1)
          (map hd bss) ?s =
        (1, map hd bss @ [LF], after_bytes (session scp) (Suc (length bss)) rest)"
    using assms(3) rd by (subst read_string_loop.simps) (simp add: SSH_ERROR_def)
  then show ?thesis
    using loop_bytes [OF assms(1,2), of 0 "unat (len - 1)" SSH_OK "[]"] assms(3)
    by (simp add: ssh_scp_read_string_def after_bytes_def)
qed

text \<open>
  Claim C2, as amended. Let the buffer limit \<open>len\<close> be at least 2 and let the channel
  deliver the bytes \<open>map hd bss\<close>, none of them a newline, one per read. If these are
  \<open>len - 1\<close> bytes, \<open>ssh_scp_read_string\<close> stores them with a terminating NUL and
  returns the result of the last channel read, 1, which is not \<open>SSH_ERROR\<close>: the
  overlong line is cut, not refused. If they are fewer and the next read fails or
  yields no byte (the stream ends), the bytes read so far are stored with a terminating
  NUL and the call returns \<open>SSH_ERROR\<close>.
\<close>

theorem read_string_outcomes:
  assumes "2 \<le> len"
    and "\<forall>b\<in>set bss. b \<noteq> [] \<and> hd b \<noteq> LF"
    and "read_replies (session scp) = map Some bss @ rest"
  shows "(length bss = unat len - 1 \<longrightarrow>
            fst (ssh_scp_read_string scp len) = 1
            \<and> fst (ssh_scp_read_string scp len) \<noteq> SSH_ERROR
            \<and> fst (snd (ssh_scp_read_string scp len)) = map hd bss @ [NUL])
       \<and> (length bss < unat len - 1 \<and> (rest = [] \<or> hd rest = None \<or> hd rest = Some []) \<longrightarrow>
            fst (ssh_scp_read_string scp len) = SSH_ERROR
            \<and> fst (snd (ssh_scp_read_string scp len)) = map hd bss @ [NUL])"
proof (intro conjI impI)
  from assms(1) have "len \<noteq> 0" by auto
  then have lim: "unat (len - 1) = unat len - 1" by (rule unat_minus_one)
  from assms(1) have two: "2 \<le> unat len" by (simp add: word_le_nat_alt)
  {
    assume l: "length bss = unat len - 1"
    with two have ne: "bss \<noteq> []" by auto
    from l lim have "length bss = unat (len - 1)" by simp
    from read_string_overlong [OF assms(2,3) this] ne
    show "fst (ssh_scp_read_string scp len) = 1"
      and "fst (ssh_scp_read_string scp len) \<noteq> SSH_ERROR"
      and "fst (snd (ssh_scp_read_string scp len)) = map hd bss @ [NUL]"
      by (simp_all add: SSH_ERROR_def)
  }
  {
    assume a: "length bss < unat len - 1 \<and> (rest = [] \<or> hd rest = None \<or> hd rest = Some [])"
    with lim have l: "length bss < unat (len - 1)" by simp
    show "fst (ssh_scp_read_string scp len) = SSH_ERROR"
    proof (cases "rest = [] \<or> hd rest = None")
      case True
      from read_string_fail(1) [OF assms(2,3) True l] show ?thesis .
    next
      case False
      with a obtain t where "rest = Some [] # t" by (cases rest) auto
      with assms(3) have "read_replies (session scp) = map Some bss @ Some [] # t" by simp
      from read_string_eof [OF assms(2) this l] show ?thesis by simp
    qed
    show "fst (snd (ssh_scp_read_string scp len)) = map hd bss @ [NUL]"
    proof (cases "rest = [] \<or> hd rest = None")
      case True
      from read_string_fail(2) [OF assms(2,3) True l] show ?thesis .
    next
      case False
      with a obtain t where "rest = Some [] # t" by (cases rest) auto
      with assms(3) have "read_replies (session scp) = map Some bss @ Some [] # t" by simp
      from read_string_eof [OF assms(2) this l] show ?thesis by simp
    qed
  }
qed

text \<open>
  Claim C2 as stated fails: with a limit of 4 and the line \<open>ABCD\<close>, three bytes are
  consumed without a newline, the buffer holds \<open>ABC\<close> and a NUL, and the call does
  not return \<open>SSH_ERROR\<close>.
\<close>

theorem overlong_line_counterexample:
  "fst (snd (ssh_scp_read_string overlong 4)) = ''ABC'' @ [NUL]
   \<and> calls (session (snd (snd (ssh_scp_read_string overlong 4)))) =
       [Channel_read 1, Channel_read 1, Channel_read 1]
   \<and> fst (ssh_scp_read_string overlong 4) \<noteq> SSH_ERROR"
proof -
  have r: "read_replies (session overlong) =
      map Some [''A'', ''B'', ''C''] @ [Some ''D'', Some [LF]]"
    by (simp add: overlong_def zero_scp_def silent_def)
  have b: "\<forall>b\<in>set [''A'', ''B'', ''C'']. b \<noteq> [] \<and> hd b \<noteq> LF"
    by (simp add: LF_def)
  have l: "length [''A'', ''B'', ''C''] = unat (4 - 1 :: size_t)" by simp
  show ?thesis
    by (simp add: read_string_overlong [OF b r l] after_bytes_def SSH_ERROR_def)
       (simp add: overlong_def zero_scp_def silent_def)
qed

theorem read_string_outcomes_witness:
  "(2 :: size_t) \<le> 4
   \<and> fst (ssh_scp_read_string overlong 4) = 1
   \<and> fst (snd (ssh_scp_read_string overlong 4)) = ''ABC'' @ [NUL]
   \<and> fst (ssh_scp_read_string cut_short 4) = SSH_ERROR
   \<and> fst (snd (ssh_scp_read_string cut_short 4)) = ''A'' @ [NUL]"
proof -
  have two: "(2 :: size_t) \<le> 4" by simp
  have r: "read_replies (session overlong) =
      map Some [''A'', ''B'', ''C''] @ [Some ''D'', Some [LF]]"
    by (simp add: overlong_def zero_scp_def silent_def)
  have b: "\<forall>b\<in>set [''A'', ''B'', ''C'']. b \<noteq> [] \<and> hd b \<noteq> LF"
    by (simp add: LF_def)
  have r2: "read_replies (session cut_short) = map Some [''A''] @ [Some []]"
    by (simp add: cut_short_def zero_scp_def silent_def)
  have b2: "\<forall>b\<in>set [''A'']. b \<noteq> [] \<and> hd b \<noteq> LF"
    by (simp add: LF_def)
  from read_string_outcomes [OF two b r] read_string_outcomes [OF two b2 r2] two
  show ?thesis by simp
qed

subsection \<open>The state after a failure\<close>

text \<open>
  Claim C1, as amended. When \<open>ssh_scp_init\<close>, \<open>ssh_scp_push_directory\<close>,
  \<open>ssh_scp_leave_directory\<close>, \<open>ssh_scp_push_file\<close>, \<open>ssh_scp_write\<close> or
  \<open>ssh_scp_read\<close> is called in its precondition state (for the read:
  \<open>SSH_SCP_READ_READING\<close>) and returns \<open>SSH_ERROR\<close>, the state is
  \<open>SSH_SCP_ERROR\<close> afterwards. When \<open>ssh_scp_pull_request\<close>,
  \<open>ssh_scp_deny_request\<close> or \<open>ssh_scp_accept_request\<close> is called in its precondition
  state and returns \<open>SSH_ERROR\<close>, the state is the one before the call.
\<close>

theorem failure_state:
  "(state scp = SSH_SCP_NEW \<and> fst (ssh_scp_init c scp) = SSH_ERROR \<longrightarrow>
      state (snd (ssh_scp_init c scp)) = SSH_SCP_ERROR)
   \<and> (state scp = SSH_SCP_WRITE_INITED \<and> fst (ssh_scp_push_directory c scp d p) = SSH_ERROR \<longrightarrow>
      state (snd (ssh_scp_push_directory c scp d p)) = SSH_SCP_ERROR)
   \<and> (state scp = SSH_SCP_WRITE_INITED \<and> fst (ssh_scp_leave_directory c scp) = SSH_ERROR \<longrightarrow>
      state (snd (ssh_scp_leave_directory c scp)) = SSH_SCP_ERROR)
   \<and> (state scp = SSH_SCP_WRITE_INITED \<and> fst (ssh_scp_push_file c scp f n p) = SSH_ERROR \<longrightarrow>
      state (snd (ssh_scp_push_file c scp f n p)) = SSH_SCP_ERROR)
   \<and> (state scp = SSH_SCP_WRITE_WRITING \<and> fst (ssh_scp_write scp b n) = SSH_ERROR \<longrightarrow>
      state (snd (ssh_scp_write scp b n)) = SSH_SCP_ERROR)
   \<and> (state scp = SSH_SCP_READ_READING \<and> fst (ssh_scp_read scp n) = SSH_ERROR \<longrightarrow>
      state (snd (snd (ssh_scp_read scp n))) = SSH_SCP_ERROR)
   \<and> (state scp = SSH_SCP_READ_INITED \<and> fst (ssh_scp_pull_request scp) = SSH_ERROR \<longrightarrow>
      state (snd (ssh_scp_pull_request scp)) = SSH_SCP_READ_INITED)
   \<and> (state scp = SSH_SCP_READ_REQUESTED \<and> fst (ssh_scp_deny_request scp m) = SSH_ERROR \<longrightarrow>
      state (snd (ssh_scp_deny_request scp m)) = SSH_SCP_READ_REQUESTED)
   \<and> (state scp = SSH_SCP_READ_REQUESTED \<and> fst (ssh_scp_accept_request scp) = SSH_ERROR \<longrightarrow>
      state (snd (ssh_scp_accept_request scp)) = SSH_SCP_READ_REQUESTED)"
  using pull_request_failure [of scp] deny_request_failure [of scp m]
    accept_request_failure [of scp] read_chunk_failure [of scp n]
  by (auto simp add: init_failure push_directory_failure leave_directory_failure
      push_file_failure write_failure read_in_reading)

text \<open>
  Claim C1 as stated fails: a pull session in \<open>SSH_SCP_READ_INITED\<close> that receives
  the line \<open>Xgarbage\<close> returns \<open>SSH_ERROR\<close> with the message of an unhandled line,
  and its state is not \<open>SSH_SCP_ERROR\<close> afterwards.
\<close>

theorem garbage_line_counterexample:
  "state garbage_pull = SSH_SCP_READ_INITED
   \<and> fst (ssh_scp_pull_request garbage_pull) = SSH_ERROR
   \<and> error_message (session (snd (ssh_scp_pull_request garbage_pull))) =
       ''Unhandled message: Xgarbage'' @ [LF]
   \<and> state (snd (ssh_scp_pull_request garbage_pull)) \<noteq> SSH_SCP_ERROR"
proof -
  have r: "read_replies (session garbage_pull) =
      map Some (map (\<lambda>c. [c]) ''Xgarbage'') @ Some (LF # []) # []"
    by (simp add: garbage_pull_def zero_scp_def silent_def)
  have b: "\<forall>b\<in>set (map (\<lambda>c. [c]) ''Xgarbage''). b \<noteq> [] \<and> hd b \<noteq> LF"
    by (simp add: LF_def)
  have l: "length (map (\<lambda>c. [c]) ''Xgarbage'') < unat (4096 - 1 :: size_t)" by simp
  have st: "state garbage_pull = SSH_SCP_READ_INITED"
    by (simp add: garbage_pull_def zero_scp_def)
  show ?thesis
    by (simp add: ssh_scp_pull_request_def st read_string_line [OF b r l] c_str_def NUL_def
        LF_def ssh_set_error_def SSH_ERROR_def)
qed

lemma in_state_simps [simp]:
  "state (in_state st) = st" "session (in_state st) = silent"
  "filelen (in_state st) = 0" "processed (in_state st) = 0"
  "request_type (in_state st) = 0"
  by (simp_all add: in_state_def zero_scp_def)

lemma silent_calls:
  "channel_write silent data len =
     (SSH_ERROR, silent\<lparr>calls := [Channel_write (take len data) len]\<rparr>)"
  "channel_write (channel_poll silent) data len =
     (SSH_ERROR, silent\<lparr>calls := [Channel_poll, Channel_write (take len data) len]\<rparr>)"
  "channel_read silent k = (SSH_ERROR, [], silent\<lparr>calls := [Channel_read k]\<rparr>)"
  "channel_new silent = (False, silent\<lparr>calls := [Channel_new]\<rparr>)"
  by (simp_all add: channel_write_def channel_read_def channel_new_def channel_poll_def
      next_outcome_def silent_def)

lemma pull_request_read_error:
  "state scp = SSH_SCP_READ_INITED \<Longrightarrow> fst (ssh_scp_read_string scp 4096) = SSH_ERROR \<Longrightarrow>
     ssh_scp_pull_request scp = (SSH_ERROR, snd (snd (ssh_scp_read_string scp 4096)))"
  by (cases "ssh_scp_read_string scp 4096") (simp add: ssh_scp_pull_request_def)

theorem failure_state_witness:
  "fst (ssh_scp_init NUL (in_state SSH_SCP_NEW)) = SSH_ERROR
   \<and> state (snd (ssh_scp_init NUL (in_state SSH_SCP_NEW))) = SSH_SCP_ERROR
   \<and> fst (ssh_scp_push_directory NUL (in_state SSH_SCP_WRITE_INITED) ''d'' ''0755'') = SSH_ERROR
   \<and> state (snd (ssh_scp_push_directory NUL (in_state SSH_SCP_WRITE_INITED) ''d'' ''0755''))
       = SSH_SCP_ERROR
   \<and> fst (ssh_scp_leave_directory NUL (in_state SSH_SCP_WRITE_INITED)) = SSH_ERROR
   \<and> state (snd (ssh_scp_leave_directory NUL (in_state SSH_SCP_WRITE_INITED))) = SSH_SCP_ERROR
   \<and> fst (ssh_scp_push_file NUL (in_state SSH_SCP_WRITE_INITED) ''f'' 5 ''0755'') = SSH_ERROR
   \<and> state (snd (ssh_scp_push_file NUL (in_state SSH_SCP_WRITE_INITED) ''f'' 5 ''0755''))
       = SSH_SCP_ERROR
   \<and> fst (ssh_scp_write (in_state SSH_SCP_WRITE_WRITING) ''hello'' 5) = SSH_ERROR
   \<and> state (snd (ssh_scp_write (in_state SSH_SCP_WRITE_WRITING) ''hello'' 5)) = SSH_SCP_ERROR
   \<and> fst (ssh_scp_read (in_state SSH_SCP_READ_READING) 5) = SSH_ERROR
   \<and> state (snd (snd (ssh_scp_read (in_state SSH_SCP_READ_READING) 5))) = SSH_SCP_ERROR
   \<and> fst (ssh_scp_pull_request (in_state SSH_SCP_READ_INITED)) = SSH_ERROR
   \<and> state (snd (ssh_scp_pull_request (in_state SSH_SCP_READ_INITED))) = SSH_SCP_READ_INITED
   \<and> fst (ssh_scp_deny_request (in_state SSH_SCP_READ_REQUESTED) ''no'') = SSH_ERROR
   \<and> state (snd (ssh_scp_deny_request (in_state SSH_SCP_READ_REQUESTED) ''no''))
       = SSH_SCP_READ_REQUESTED
   \<and> fst (ssh_scp_accept_request (in_state SSH_SCP_READ_REQUESTED)) = SSH_ERROR
   \<and> state (snd (ssh_scp_accept_request (in_state SSH_SCP_READ_REQUESTED)))
       = SSH_SCP_READ_REQUESTED"
proof -
  have i: "fst (ssh_scp_init NUL (in_state SSH_SCP_NEW)) = SSH_ERROR"
    by (simp add: ssh_scp_init_def silent_calls Let_def)
  have pd: "fst (ssh_scp_push_directory NUL (in_state SSH_SCP_WRITE_INITED) ''d'' ''0755'') = SSH_ERROR"
    by (simp add: ssh_scp_push_directory_def silent_calls Let_def)
  have ld: "fst (ssh_scp_leave_directory NUL (in_state SSH_SCP_WRITE_INITED)) = SSH_ERROR"
    by (simp add: ssh_scp_leave_directory_def silent_calls Let_def)
  have pf: "fst (ssh_scp_push_file NUL (in_state SSH_SCP_WRITE_INITED) ''f'' 5 ''0755'') = SSH_ERROR"
    by (simp add: ssh_scp_push_file_def silent_calls Let_def)
  have w: "fst (ssh_scp_write (in_state SSH_SCP_WRITE_WRITING) ''hello'' 5) = SSH_ERROR"
    by (simp add: ssh_scp_write_def silent_calls Let_def)
  have r: "fst (ssh_scp_read (in_state SSH_SCP_READ_READING) 5) = SSH_ERROR"
    by (simp add: ssh_scp_read_def ssh_scp_read_chunk_def silent_calls Let_def)
  have pr: "fst (ssh_scp_pull_request (in_state SSH_SCP_READ_INITED)) = SSH_ERROR"
    using read_string_fail(1) [of "[]" "in_state SSH_SCP_READ_INITED" "[]" 4096]
    by (simp add: pull_request_read_error silent_def)
  have dr: "fst (ssh_scp_deny_request (in_state SSH_SCP_READ_REQUESTED) ''no'') = SSH_ERROR"
    by (simp add: ssh_scp_deny_request_def silent_calls Let_def)
  have ar: "fst (ssh_scp_accept_request (in_state SSH_SCP_READ_REQUESTED)) = SSH_ERROR"
    by (simp add: ssh_scp_accept_request_def silent_calls Let_def)
  from failure_state [of "in_state SSH_SCP_NEW" NUL] i
    failure_state [of "in_state SSH_SCP_WRITE_INITED" NUL "''d''" "''0755''" "''f''" 5] pd ld pf
    failure_state [of "in_state SSH_SCP_WRITE_WRITING" NUL "''d''" "''0755''" "''f''" 5 "''hello''"] w
    failure_state [of "in_state SSH_SCP_READ_READING" NUL "''d''" "''0755''" "''f''" 5 "''hello''"] r
    failure_state [of "in_state SSH_SCP_READ_INITED"] pr
    failure_state [of "in_state SSH_SCP_READ_REQUESTED" NUL "''d''" "''0755''" "''f''" 5 "''hello''" "''no''"] dr ar
  show ?thesis by simp
qed

subsection \<open>Creation\<close>

lemma digit_char_nth: "d < 10 \<Longrightarrow> digit_char d = ''0123456789'' ! d"
proof -
  have "\<forall>d\<in>set [0..<10]. digit_char d = ''0123456789'' ! d" by code_simp
  moreover assume "d < 10"
  ultimately show ?thesis by simp
qed

text \<open>
  Claim C10. With a mode that is neither \<open>SSH_SCP_WRITE\<close> nor \<open>SSH_SCP_READ\<close>,
  \<open>ssh_scp_new\<close> returns no session (NULL), and the block allocated for the structure
  has been freed: the number of live heap blocks is the one before the call, and no
  channel call was made. A session that is returned has the mode asked for, one of the
  two legal values, and no operation changes the mode field.
\<close>

theorem invalid_mode_refused:
  "(md \<noteq> SSH_SCP_WRITE \<and> md \<noteq> SSH_SCP_READ \<longrightarrow>
      fst (ssh_scp_new sess md loc) = None
      \<and> heap_blocks (snd (ssh_scp_new sess md loc)) = heap_blocks sess
      \<and> calls (snd (ssh_scp_new sess md loc)) = calls sess)
   \<and> (fst (ssh_scp_new sess md loc) = Some scp \<longrightarrow>
      mode scp = md \<and> (md = SSH_SCP_WRITE \<or> md = SSH_SCP_READ))
   \<and> mode (snd (ssh_scp_init c s)) = mode s
   \<and> mode (snd (ssh_scp_close s)) = mode s
   \<and> mode (snd (ssh_scp_push_directory c s d p)) = mode s
   \<and> mode (snd (ssh_scp_leave_directory c s)) = mode s
   \<and> mode (snd (ssh_scp_push_file c s f n p)) = mode s
   \<and> mode (snd (ssh_scp_write s b n)) = mode s
   \<and> mode (snd (ssh_scp_pull_request s)) = mode s
   \<and> mode (snd (ssh_scp_deny_request s m)) = mode s
   \<and> mode (snd (ssh_scp_accept_request s)) = mode s
   \<and> mode (snd (snd (ssh_scp_read s n))) = mode s"
  using new_mode [of sess md loc scp]
  by (simp add: new_invalid_mode mode_init mode_close mode_push_directory
      mode_leave_directory mode_push_file mode_write mode_pull_request mode_deny_request
      mode_accept_request mode_read)

theorem invalid_mode_refused_witness:
  "(7 :: int) \<noteq> SSH_SCP_WRITE \<and> 7 \<noteq> SSH_SCP_READ
   \<and> fst (ssh_scp_new ready 7 ''/tmp/dst'') = None
   \<and> heap_blocks (snd (ssh_scp_new ready 7 ''/tmp/dst'')) = heap_blocks ready
   \<and> error_message (snd (ssh_scp_new ready 7 ''/tmp/dst'')) = ''Invalid mode 7 for ssh_scp_new()''
   \<and> map_option mode (fst (ssh_scp_new ready SSH_SCP_READ ''/tmp/src'')) = Some SSH_SCP_READ"
proof -
  have m: "(7 :: int) \<noteq> SSH_SCP_WRITE \<and> 7 \<noteq> SSH_SCP_READ"
    by (simp add: SSH_SCP_WRITE_def SSH_SCP_READ_def)
  have e: "error_message (snd (ssh_scp_new ready 7 ''/tmp/dst'')) =
      ''Invalid mode 7 for ssh_scp_new()''"
    by (simp add: ssh_scp_new_def ready_def silent_def alloc_def next_outcome_def
        SSH_SCP_WRITE_def SSH_SCP_READ_def free_zero_scp free_block_def ssh_set_error_def
        dec_int_def digit_char_nth)
  obtain scp where s: "fst (ssh_scp_new ready SSH_SCP_READ ''/tmp/src'') = Some scp"
    by (simp add: ssh_scp_new_def ready_def silent_def alloc_def next_outcome_def
        SSH_SCP_WRITE_def SSH_SCP_READ_def)
  from invalid_mode_refused [of 7 ready "''/tmp/dst''"] m
    invalid_mode_refused [of SSH_SCP_READ ready "''/tmp/src''" scp] s e
  show ?thesis by simp
qed

subsection \<open>Control lines that are refused\<close>

lemma split_at_Some:
  "split_at c str = Some (a, b) \<Longrightarrow> str = a @ c # b \<and> c \<notin> set a"
proof -
  assume s: "split_at c str = Some (a, b)"
  then have m: "c \<in> set str" by (simp add: split_at_def split: if_splits)
  from s m have a: "a = takeWhile (\<lambda>x. x \<noteq> c) str"
    and b: "b = tl (dropWhile (\<lambda>x. x \<noteq> c) str)"
    by (simp_all add: split_at_def)
  from m have "dropWhile (\<lambda>x. x \<noteq> c) str \<noteq> []" by simp
  moreover from m have "hd (dropWhile (\<lambda>x. x \<noteq> c) str) = c"
    using hd_dropWhile [of "\<lambda>x. x \<noteq> c" str] by simp
  ultimately have "dropWhile (\<lambda>x. x \<noteq> c) str = c # b"
    using b by (cases "dropWhile (\<lambda>x. x \<noteq> c) str") simp_all
  then have "str = a @ c # b"
    using takeWhile_dropWhile_id [of "\<lambda>x. x \<noteq> c" str] a by simp
  moreover have "c \<notin> set a"
    using a by (auto dest: set_takeWhileD)
  ultimately show ?thesis by simp
qed

lemma c_str_line:
  "set (c_str (line @ [NUL])) \<subseteq> set line"
  "length (filter P (c_str (line @ [NUL]))) \<le> length (filter P line)"
proof -
  have e: "line @ [NUL] = takeWhile (\<lambda>c. c \<noteq> NUL) (line @ [NUL]) @ dropWhile (\<lambda>c. c \<noteq> NUL) (line @ [NUL])"
    by simp
  have t: "takeWhile (\<lambda>c. c \<noteq> NUL) (line @ [NUL]) = takeWhile (\<lambda>c. c \<noteq> NUL) line"
    by (induction line) simp_all
  show "set (c_str (line @ [NUL])) \<subseteq> set line"
    unfolding c_str_def t by (auto dest: set_takeWhileD)
  have "length (filter P (takeWhile (\<lambda>c. c \<noteq> NUL) line)) \<le> length (filter P line)"
  proof -
    have "filter P line = filter P (takeWhile (\<lambda>c. c \<noteq> NUL) line) @ filter P (dropWhile (\<lambda>c. c \<noteq> NUL) line)"
      using takeWhile_dropWhile_id [of "\<lambda>c. c \<noteq> NUL" line] filter_append [of P "takeWhile (\<lambda>c. c \<noteq> NUL) line" "dropWhile (\<lambda>c. c \<noteq> NUL) line"]
      by simp
    then show ?thesis by simp
  qed
  then show "length (filter P (c_str (line @ [NUL]))) \<le> length (filter P line)"
    unfolding c_str_def t .
qed

lemma read_string_session:
  "\<exists>s. snd (snd (ssh_scp_read_string scp n)) = scp\<lparr>session := s\<rparr>"
  by (auto simp add: ssh_scp_read_string_def split: prod.splits)

lemma pull_request_error_keeps:
  assumes e: "fst (ssh_scp_pull_request scp) = SSH_ERROR"
  shows "\<exists>s. snd (ssh_scp_pull_request scp) = scp\<lparr>session := s\<rparr>"
proof (cases "state scp = SSH_SCP_READ_INITED")
  case False
  then show ?thesis by (auto simp add: ssh_scp_pull_request_def)
next
  case st: True
  obtain err buffer scp1 where rs: "ssh_scp_read_string scp 4096 = (err, buffer, scp1)"
    by (cases "ssh_scp_read_string scp 4096")
  from read_string_session [of scp 4096] rs obtain s1 where s1: "scp1 = scp\<lparr>session := s1\<rparr>"
    by auto
  show ?thesis
  proof (cases "err = SSH_ERROR")
    case True
    then show ?thesis by (auto simp add: ssh_scp_pull_request_def st rs s1)
  next
    case ne: False
    show ?thesis
    proof (cases "hd buffer = CHR ''C'' \<or> hd buffer = CHR ''D''")
      case False
      then show ?thesis using ne by (auto simp add: ssh_scp_pull_request_def st rs s1)
    next
      case cd: True
      show ?thesis
      proof (cases "split_at CHR '' '' (c_str buffer)")
        case None
        then show ?thesis
          using ne cd by (auto simp add: ssh_scp_pull_request_def st rs s1 parse_error_def)
      next
        case (Some a)
        obtain f1 p1 where a: "a = (f1, p1)" by (cases a)
        show ?thesis
        proof (cases "split_at CHR '' '' p1")
          case None
          then show ?thesis
            using ne cd Some a
            by (auto simp add: ssh_scp_pull_request_def st rs s1 parse_error_def)
        next
          case b: (Some b)
          obtain tmp p2 where b': "b = (tmp, p2)" by (cases b)
          show ?thesis
          proof (cases "split_at LF p2")
            case None
            then show ?thesis
              using ne cd Some a b b'
              by (auto simp add: ssh_scp_pull_request_def st rs s1 parse_error_def)
          next
            case c: (Some c)
            obtain name p3 where c': "c = (name, p3)" by (cases c)
            have "fst (ssh_scp_pull_request scp) \<noteq> SSH_ERROR"
              using ne cd Some a b b' c c'
              by (simp add: ssh_scp_pull_request_def st rs s1 Let_def
                  SSH_SCP_REQUEST_NEWFILE_def SSH_SCP_REQUEST_NEWDIR_def SSH_ERROR_def)
            with e show ?thesis by simp
          qed
        qed
      qed
    qed
  qed
qed

lemma pull_request_success_form:
  assumes "ssh_scp_read_string scp 4096 = (err, buffer, scp1)"
    and "fst (ssh_scp_pull_request scp) \<noteq> SSH_ERROR"
  shows "err \<noteq> SSH_ERROR \<and> (hd buffer = CHR ''C'' \<or> hd buffer = CHR ''D'')
       \<and> (\<exists>f1 tmp name p3. c_str buffer = f1 @ CHR '' '' # tmp @ CHR '' '' # name @ LF # p3)"
proof -
  have st: "state scp = SSH_SCP_READ_INITED"
  proof (rule ccontr)
    assume "state scp \<noteq> SSH_SCP_READ_INITED"
    then have "fst (ssh_scp_pull_request scp) = SSH_ERROR"
      by (simp add: ssh_scp_pull_request_def)
    with assms(2) show False by simp
  qed
  from assms have e: "err \<noteq> SSH_ERROR"
    by (auto simp add: ssh_scp_pull_request_def st)
  from assms e have h: "hd buffer = CHR ''C'' \<or> hd buffer = CHR ''D''"
    by (auto simp add: ssh_scp_pull_request_def st split: if_splits)
  from assms e h obtain f1 p1 where s1: "split_at CHR '' '' (c_str buffer) = Some (f1, p1)"
    by (cases "split_at CHR '' '' (c_str buffer)")
       (auto simp add: ssh_scp_pull_request_def st parse_error_def)
  from assms e h s1 obtain tmp p2 where s2: "split_at CHR '' '' p1 = Some (tmp, p2)"
    by (cases "split_at CHR '' '' p1")
       (auto simp add: ssh_scp_pull_request_def st parse_error_def Let_def)
  from assms e h s1 s2 obtain name p3 where s3: "split_at LF p2 = Some (name, p3)"
    by (cases "split_at LF p2")
       (auto simp add: ssh_scp_pull_request_def st parse_error_def Let_def)
  from split_at_Some [OF s1] split_at_Some [OF s2] split_at_Some [OF s3]
  have "c_str buffer = f1 @ CHR '' '' # tmp @ CHR '' '' # name @ LF # p3" by simp
  with e h show ?thesis by blast
qed

lemma pull_line_read:
  assumes "read_replies (session scp) = map (\<lambda>c. Some [c]) (cs @ [LF])"
    and "LF \<notin> set cs" and "length cs < 4095"
  shows "ssh_scp_read_string scp 4096 =
     (1, (cs @ [LF]) @ [NUL], scp\<lparr>session := after_bytes (session scp) (Suc (length cs)) []\<rparr>)"
proof -
  have r: "read_replies (session scp) = map Some (map (\<lambda>c. [c]) cs) @ Some (LF # []) # []"
    using assms(1) by (simp add: comp_def)
  have b: "\<forall>b\<in>set (map (\<lambda>c. [c]) cs). b \<noteq> [] \<and> hd b \<noteq> LF"
    using assms(2) by auto
  have l: "length (map (\<lambda>c. [c]) cs) < unat (4096 - 1 :: size_t)"
    using assms(3) by simp
  from read_string_line [OF b r l] show ?thesis by (simp add: comp_def)
qed

text \<open>
  Claim C8. Let \<open>ssh_scp_pull_request\<close> be called in \<open>SSH_SCP_READ_INITED\<close> and let
  \<open>line\<close> be the bytes that \<open>ssh_scp_read_string\<close> has received and stored before the
  terminating NUL. If the read failed, or the line is empty, or its first byte is neither
  \<open>C\<close> nor \<open>D\<close>, or it has fewer than two spaces, or it has no newline, then the call
  returns \<open>SSH_ERROR\<close> and records no request: the state is still
  \<open>SSH_SCP_READ_INITED\<close> and the request type, name and permissions and the two
  counters are the ones before the call.
\<close>

theorem malformed_line_refused:
  assumes "state scp = SSH_SCP_READ_INITED"
    and "ssh_scp_read_string scp 4096 = (err, line @ [NUL], scp1)"
    and "err = SSH_ERROR \<or> line = []
         \<or> (hd line \<noteq> CHR ''C'' \<and> hd line \<noteq> CHR ''D'')
         \<or> length (filter (\<lambda>c. c = CHR '' '') line) < 2
         \<or> LF \<notin> set line"
  shows "fst (ssh_scp_pull_request scp) = SSH_ERROR
       \<and> state (snd (ssh_scp_pull_request scp)) = SSH_SCP_READ_INITED
       \<and> request_type (snd (ssh_scp_pull_request scp)) = request_type scp
       \<and> request_name (snd (ssh_scp_pull_request scp)) = request_name scp
       \<and> request_mode (snd (ssh_scp_pull_request scp)) = request_mode scp
       \<and> filelen (snd (ssh_scp_pull_request scp)) = filelen scp
       \<and> processed (snd (ssh_scp_pull_request scp)) = processed scp"
proof -
  have err: "fst (ssh_scp_pull_request scp) = SSH_ERROR"
  proof (rule ccontr)
    assume "fst (ssh_scp_pull_request scp) \<noteq> SSH_ERROR"
    from pull_request_success_form [OF assms(2) this]
    obtain f1 tmp name p3 where e: "err \<noteq> SSH_ERROR"
      and h: "hd (line @ [NUL]) = CHR ''C'' \<or> hd (line @ [NUL]) = CHR ''D''"
      and f: "c_str (line @ [NUL]) = f1 @ CHR '' '' # tmp @ CHR '' '' # name @ LF # p3"
      by blast
    from h have ne: "line \<noteq> []" by (auto simp add: NUL_def)
    with h have h': "hd line = CHR ''C'' \<or> hd line = CHR ''D''" by simp
    from f have "LF \<in> set (c_str (line @ [NUL]))" by simp
    with c_str_line(1) [of line] have lf: "LF \<in> set line" by blast
    from f have "2 \<le> length (filter (\<lambda>c. c = CHR '' '') (c_str (line @ [NUL])))" by simp
    with c_str_line(2) [of "\<lambda>c. c = CHR '' ''" line]
    have sp: "2 \<le> length (filter (\<lambda>c. c = CHR '' '') line)" by simp
    from assms(3) e ne h' sp lf show False by auto
  qed
  from pull_request_error_keeps [OF err] obtain s
    where "snd (ssh_scp_pull_request scp) = scp\<lparr>session := s\<rparr>" ..
  with err assms(1) show ?thesis by simp
qed


theorem malformed_line_refused_witness:
  "state garbage_pull = SSH_SCP_READ_INITED
   \<and> fst (snd (ssh_scp_read_string garbage_pull 4096)) = (''Xgarbage'' @ [LF]) @ [NUL]
   \<and> fst (ssh_scp_pull_request garbage_pull) = SSH_ERROR
   \<and> state (snd (ssh_scp_pull_request garbage_pull)) = SSH_SCP_READ_INITED
   \<and> request_name (snd (ssh_scp_pull_request garbage_pull)) = None
   \<and> state no_space_pull = SSH_SCP_READ_INITED
   \<and> fst (snd (ssh_scp_read_string no_space_pull 4096)) = (''C0644'' @ [LF]) @ [NUL]
   \<and> fst (ssh_scp_pull_request no_space_pull) = SSH_ERROR
   \<and> state (snd (ssh_scp_pull_request no_space_pull)) = SSH_SCP_READ_INITED
   \<and> request_name (snd (ssh_scp_pull_request no_space_pull)) = None
   \<and> state cut_pull = SSH_SCP_READ_INITED
   \<and> fst (snd (ssh_scp_read_string cut_pull 4096)) = ''C0644 10 x'' @ [NUL]
   \<and> fst (ssh_scp_pull_request cut_pull) = SSH_ERROR
   \<and> state (snd (ssh_scp_pull_request cut_pull)) = SSH_SCP_READ_INITED
   \<and> request_name (snd (ssh_scp_pull_request cut_pull)) = None"
proof -
  have g: "state garbage_pull = SSH_SCP_READ_INITED" "request_name garbage_pull = None"
    "read_replies (session garbage_pull) = map (\<lambda>c. Some [c]) (''Xgarbage'' @ [LF])"
    by (simp_all add: garbage_pull_def zero_scp_def silent_def)
  have n: "state no_space_pull = SSH_SCP_READ_INITED" "request_name no_space_pull = None"
    "read_replies (session no_space_pull) = map (\<lambda>c. Some [c]) (''C0644'' @ [LF])"
    by (simp_all add: no_space_pull_def zero_scp_def silent_def)
  have k: "state cut_pull = SSH_SCP_READ_INITED" "request_name cut_pull = None"
    "read_replies (session cut_pull) = map Some (map (\<lambda>c. [c]) ''C0644 10 x'') @ Some [] # []"
    by (simp_all add: cut_pull_def zero_scp_def silent_def)
  have rg: "ssh_scp_read_string garbage_pull 4096 =
      (1, (''Xgarbage'' @ [LF]) @ [NUL],
       garbage_pull\<lparr>session := after_bytes (session garbage_pull) (Suc (length ''Xgarbage'')) []\<rparr>)"
    by (rule pull_line_read [OF g(3)]) (simp_all add: LF_def)
  have rn: "ssh_scp_read_string no_space_pull 4096 =
      (1, (''C0644'' @ [LF]) @ [NUL],
       no_space_pull\<lparr>session := after_bytes (session no_space_pull) (Suc (length ''C0644'')) []\<rparr>)"
    by (rule pull_line_read [OF n(3)]) (simp_all add: LF_def)
  have bk: "\<forall>b\<in>set (map (\<lambda>c. [c]) ''C0644 10 x''). b \<noteq> [] \<and> hd b \<noteq> LF"
    by (simp add: LF_def)
  have lk: "length (map (\<lambda>c. [c]) ''C0644 10 x'') < unat (4096 - 1 :: size_t)" by simp
  have rk: "ssh_scp_read_string cut_pull 4096 =
      (SSH_ERROR, ''C0644 10 x'' @ [NUL],
       cut_pull\<lparr>session := ssh_set_error
         (after_bytes (session cut_pull) (Suc (length (map (\<lambda>c. [c]) ''C0644 10 x''))) [])
         ''End of file while reading string''\<rparr>)"
    using read_string_eof [OF bk k(3) lk] by simp
  have hg: "hd (''Xgarbage'' @ [LF]) \<noteq> CHR ''C'' \<and> hd (''Xgarbage'' @ [LF]) \<noteq> CHR ''D''"
    by simp
  have hn: "length (filter (\<lambda>c. c = CHR '' '') (''C0644'' @ [LF])) < 2"
    by (simp add: LF_def)
  have hk: "LF \<notin> set ''C0644 10 x''"
    by (simp add: LF_def)
  from malformed_line_refused [OF g(1) rg] hg malformed_line_refused [OF n(1) rn] hn
    malformed_line_refused [OF k(1) rk] hk
  show ?thesis by (simp add: g n k rg rn rk)
qed

subsection \<open>The counters between transfers\<close>

lemma new_init:
  "fst (ssh_scp_new (peer line) SSH_SCP_READ ''/tmp/src'') \<noteq> None"
  "snd (ssh_scp_init NUL (the (fst (ssh_scp_new (peer line) SSH_SCP_READ ''/tmp/src''))))
     = inited line"
  by (simp_all add: ssh_scp_new_def ssh_scp_init_def peer_def inited_def silent_def alloc_def
      next_outcome_def zero_scp_def SSH_SCP_WRITE_def SSH_SCP_READ_def channel_new_def
      channel_open_session_def channel_request_exec_def status_call_def read_code_def
      channel_read_def snprintf_def c_str_def null_str_def NUL_def Let_def SSH_OK_def
      SSH_ERROR_def)

lemma pulled_eq: "pulled line = snd (ssh_scp_pull_request (inited line))"
  using new_init [of line] by (auto simp add: pulled_def)

lemma inited_facts:
  "state (inited line) = SSH_SCP_READ_INITED"
  "read_replies (session (inited line)) = map (\<lambda>c. Some [c]) (line @ [LF])"
  by (simp_all add: inited_def zero_scp_def)

lemma pulled_file:
  "state (pulled ''C0644 10 x'') = SSH_SCP_READ_REQUESTED
   \<and> request_type (pulled ''C0644 10 x'') = SSH_SCP_REQUEST_NEWFILE
   \<and> filelen (pulled ''C0644 10 x'') = 10
   \<and> processed (pulled ''C0644 10 x'') = 0
   \<and> request_name (pulled ''C0644 10 x'') = Some ''x''
   \<and> request_mode (pulled ''C0644 10 x'') = Some ''0644''
   \<and> write_replies (session (pulled ''C0644 10 x'')) = [Some 100]"
proof -
  have r: "ssh_scp_read_string (inited ''C0644 10 x'') 4096 =
      (1, (''C0644 10 x'' @ [LF]) @ [NUL],
       (inited ''C0644 10 x'')\<lparr>session :=
          after_bytes (session (inited ''C0644 10 x'')) (Suc (length ''C0644 10 x'')) []\<rparr>)"
    by (rule pull_line_read [OF inited_facts(2)]) (simp_all add: LF_def)
  show ?thesis
    unfolding pulled_eq
    by (simp add: ssh_scp_pull_request_def inited_facts r c_str_def NUL_def LF_def split_at_def
        strtoull_def isspace_def isdigit_def digits_value_def Let_def SSH_ERROR_def
        after_bytes_def SAFE_FREE_def strdup_ok_def)
       (simp add: inited_def zero_scp_def)
qed

lemma pulled_dir:
  "state (pulled ''D0755 0 dir'') = SSH_SCP_READ_REQUESTED
   \<and> request_type (pulled ''D0755 0 dir'') = SSH_SCP_REQUEST_NEWDIR
   \<and> filelen (pulled ''D0755 0 dir'') = 48
   \<and> processed (pulled ''D0755 0 dir'') = 0
   \<and> write_replies (session (pulled ''D0755 0 dir'')) = [Some 100]"
proof -
  have r: "ssh_scp_read_string (inited ''D0755 0 dir'') 4096 =
      (1, (''D0755 0 dir'' @ [LF]) @ [NUL],
       (inited ''D0755 0 dir'')\<lparr>session :=
          after_bytes (session (inited ''D0755 0 dir'')) (Suc (length ''D0755 0 dir'')) []\<rparr>)"
    by (rule pull_line_read [OF inited_facts(2)]) (simp_all add: LF_def)
  show ?thesis
    unfolding pulled_eq
    by (simp add: ssh_scp_pull_request_def inited_facts r c_str_def NUL_def LF_def split_at_def
        strtoull_def isspace_def isdigit_def digits_value_def Let_def SSH_ERROR_def
        after_bytes_def SAFE_FREE_def strdup_ok_def)
       (simp add: inited_def zero_scp_def)
qed

lemma deny_pulled_file:
  "fst (ssh_scp_deny_request (pulled ''C0644 10 x'') ''not allowed'') = SSH_OK"
  "state (snd (ssh_scp_deny_request (pulled ''C0644 10 x'') ''not allowed'')) = SSH_SCP_READ_INITED"
  "filelen (snd (ssh_scp_deny_request (pulled ''C0644 10 x'') ''not allowed'')) = 10"
  using pulled_file
  by (simp_all add: ssh_scp_deny_request_def channel_write_def Let_def SSH_ERROR_def)

text \<open>
  Claim C4 as stated fails. The session created by \<open>ssh_scp_new\<close>, initialised, to
  which the peer announces a file of 10 bytes and which denies the request, is in
  \<open>SSH_SCP_READ_INITED\<close> with \<open>filelen\<close> still 10.
\<close>

theorem denied_request_counterexample:
  "state (snd (ssh_scp_deny_request (pulled ''C0644 10 x'') ''not allowed'')) = SSH_SCP_READ_INITED
   \<and> filelen (snd (ssh_scp_deny_request (pulled ''C0644 10 x'') ''not allowed'')) \<noteq> 0"
  by (simp add: deny_pulled_file)

text \<open>
  After a directory request is accepted the state is \<open>SSH_SCP_READ_INITED\<close> as well,
  and \<open>filelen\<close> is 48, the character \<open>0\<close> that the source stores for a directory.
\<close>

lemma accepted_directory_filelen:
  "fst (ssh_scp_accept_request (pulled ''D0755 0 dir'')) = SSH_OK
   \<and> state (snd (ssh_scp_accept_request (pulled ''D0755 0 dir''))) = SSH_SCP_READ_INITED
   \<and> filelen (snd (ssh_scp_accept_request (pulled ''D0755 0 dir''))) = 48"
  using pulled_dir
  by (simp add: ssh_scp_accept_request_def channel_write_def Let_def SSH_ERROR_def
      SSH_SCP_REQUEST_NEWDIR_def SSH_SCP_REQUEST_NEWFILE_def)


lemma new_counters:
  "fst (ssh_scp_new sess md loc) = Some scp \<Longrightarrow>
     filelen scp = 0 \<and> processed scp = 0 \<and> state scp = SSH_SCP_NEW"
  by (auto simp add: ssh_scp_new_def zero_scp_def Let_def split: prod.splits if_splits)

lemma init_counters:
  "filelen (snd (ssh_scp_init c s)) = filelen s"
  "processed (snd (ssh_scp_init c s)) = processed s"
  by (simp_all add: ssh_scp_init_def Let_def split: prod.splits)

lemma push_directory_counters:
  "filelen (snd (ssh_scp_push_directory c s d p)) = filelen s"
  "processed (snd (ssh_scp_push_directory c s d p)) = processed s"
  by (simp_all add: ssh_scp_push_directory_def Let_def split: prod.splits)

lemma leave_directory_counters:
  "filelen (snd (ssh_scp_leave_directory c s)) = filelen s"
  "processed (snd (ssh_scp_leave_directory c s)) = processed s"
  by (simp_all add: ssh_scp_leave_directory_def Let_def split: prod.splits)

lemma write_completed:
  "state s = SSH_SCP_WRITE_WRITING \<Longrightarrow>
   state (snd (ssh_scp_write s b n)) = SSH_SCP_WRITE_INITED \<Longrightarrow>
     filelen (snd (ssh_scp_write s b n)) = 0 \<and> processed (snd (ssh_scp_write s b n)) = 0"
  by (auto simp add: ssh_scp_write_def Let_def split: prod.splits if_splits)

lemma read_chunk_completed:
  "state s \<noteq> SSH_SCP_READ_INITED \<Longrightarrow>
   state (snd (snd (ssh_scp_read_chunk s n))) = SSH_SCP_READ_INITED \<Longrightarrow>
     filelen (snd (snd (ssh_scp_read_chunk s n))) = 0
     \<and> processed (snd (snd (ssh_scp_read_chunk s n))) = 0"
  by (auto simp add: ssh_scp_read_chunk_def Let_def split: prod.splits if_splits)

lemma read_completed:
  "state s \<noteq> SSH_SCP_READ_INITED \<Longrightarrow>
   state (snd (snd (ssh_scp_read s n))) = SSH_SCP_READ_INITED \<Longrightarrow>
     filelen (snd (snd (ssh_scp_read s n))) = 0 \<and> processed (snd (snd (ssh_scp_read s n))) = 0"
proof -
  assume a: "state s \<noteq> SSH_SCP_READ_INITED"
    and b: "state (snd (snd (ssh_scp_read s n))) = SSH_SCP_READ_INITED"
  show ?thesis
  proof (cases "state s = SSH_SCP_READ_REQUESTED \<and> request_type s = SSH_SCP_REQUEST_NEWFILE")
    case False
    then have "ssh_scp_read s n = ssh_scp_read_chunk s n" by (auto simp add: ssh_scp_read_def)
    with a b read_chunk_completed [of s n] show ?thesis by simp
  next
    case True
    obtain r s1 where acc: "ssh_scp_accept_request s = (r, s1)"
      by (cases "ssh_scp_accept_request s")
    show ?thesis
    proof (cases "r = SSH_ERROR")
      case True
      with acc \<open>state s = SSH_SCP_READ_REQUESTED \<and> request_type s = SSH_SCP_REQUEST_NEWFILE\<close>
      have "snd (snd (ssh_scp_read s n)) = s1" by (simp add: ssh_scp_read_def)
      moreover from accept_request_failure [of s] acc True have "state s1 = state s" by simp
      ultimately show ?thesis using a b by simp
    next
      case False
      with acc \<open>state s = SSH_SCP_READ_REQUESTED \<and> request_type s = SSH_SCP_REQUEST_NEWFILE\<close>
      have e: "ssh_scp_read s n = ssh_scp_read_chunk s1 n" by (simp add: ssh_scp_read_def)
      from acc False \<open>state s = SSH_SCP_READ_REQUESTED \<and> request_type s = SSH_SCP_REQUEST_NEWFILE\<close>
      have "state s1 = SSH_SCP_READ_READING"
        by (auto simp add: ssh_scp_accept_request_def Let_def split: prod.splits if_splits)
      with b e read_chunk_completed [of s1 n] show ?thesis by simp
    qed
  qed
qed

lemma deny_counters:
  "fst (ssh_scp_deny_request s m) = SSH_OK \<Longrightarrow>
     state (snd (ssh_scp_deny_request s m)) = SSH_SCP_READ_INITED
     \<and> filelen (snd (ssh_scp_deny_request s m)) = filelen s
     \<and> processed (snd (ssh_scp_deny_request s m)) = processed s"
  by (auto simp add: ssh_scp_deny_request_def Let_def split: prod.splits if_splits)

lemma pull_request_processed:
  assumes "fst (ssh_scp_pull_request s) \<noteq> SSH_ERROR"
  shows "processed (snd (ssh_scp_pull_request s)) = 0
       \<and> state (snd (ssh_scp_pull_request s)) = SSH_SCP_READ_REQUESTED"
proof -
  obtain err buffer scp1 where rs: "ssh_scp_read_string s 4096 = (err, buffer, scp1)"
    by (cases "ssh_scp_read_string s 4096")
  have st: "state s = SSH_SCP_READ_INITED"
  proof (rule ccontr)
    assume "state s \<noteq> SSH_SCP_READ_INITED"
    then have "fst (ssh_scp_pull_request s) = SSH_ERROR"
      by (simp add: ssh_scp_pull_request_def)
    with assms show False by simp
  qed
  from assms rs have e: "err \<noteq> SSH_ERROR"
    by (auto simp add: ssh_scp_pull_request_def st)
  from assms rs e have h: "hd buffer = CHR ''C'' \<or> hd buffer = CHR ''D''"
    by (auto simp add: ssh_scp_pull_request_def st split: if_splits)
  from assms rs e h obtain f1 p1 where s1: "split_at CHR '' '' (c_str buffer) = Some (f1, p1)"
    by (cases "split_at CHR '' '' (c_str buffer)")
       (auto simp add: ssh_scp_pull_request_def st parse_error_def)
  from assms rs e h s1 obtain tmp p2 where s2: "split_at CHR '' '' p1 = Some (tmp, p2)"
    by (cases "split_at CHR '' '' p1")
       (auto simp add: ssh_scp_pull_request_def st parse_error_def Let_def)
  from assms rs e h s1 s2 obtain name p3 where s3: "split_at LF p2 = Some (name, p3)"
    by (cases "split_at LF p2")
       (auto simp add: ssh_scp_pull_request_def st parse_error_def Let_def)
  show ?thesis
    using rs e h s1 s2 s3 by (simp add: ssh_scp_pull_request_def st Let_def)
qed

text \<open>
  Claim C4, as amended. A session returned by \<open>ssh_scp_new\<close> has both counters 0;
  \<open>ssh_scp_init\<close>, \<open>ssh_scp_push_directory\<close> and \<open>ssh_scp_leave_directory\<close> keep
  the counters; a write that leads from \<open>SSH_SCP_WRITE_WRITING\<close> to
  \<open>SSH_SCP_WRITE_INITED\<close> and a read that leads to \<open>SSH_SCP_READ_INITED\<close> leave both
  counters 0. A pull request that succeeds sets \<open>processed\<close> to 0, and a deny that
  succeeds leads to \<open>SSH_SCP_READ_INITED\<close> with both counters as the request has set
  them, \<open>filelen\<close> being the size announced for a file.
\<close>

theorem counters_between_transfers:
  "(fst (ssh_scp_new sess md loc) = Some scp \<longrightarrow> filelen scp = 0 \<and> processed scp = 0)
   \<and> filelen (snd (ssh_scp_init c s)) = filelen s
   \<and> processed (snd (ssh_scp_init c s)) = processed s
   \<and> filelen (snd (ssh_scp_push_directory c s d p)) = filelen s
   \<and> processed (snd (ssh_scp_push_directory c s d p)) = processed s
   \<and> filelen (snd (ssh_scp_leave_directory c s)) = filelen s
   \<and> processed (snd (ssh_scp_leave_directory c s)) = processed s
   \<and> (state s = SSH_SCP_WRITE_WRITING
        \<and> state (snd (ssh_scp_write s b n)) = SSH_SCP_WRITE_INITED \<longrightarrow>
      filelen (snd (ssh_scp_write s b n)) = 0 \<and> processed (snd (ssh_scp_write s b n)) = 0)
   \<and> (state s \<noteq> SSH_SCP_READ_INITED
        \<and> state (snd (snd (ssh_scp_read s n))) = SSH_SCP_READ_INITED \<longrightarrow>
      filelen (snd (snd (ssh_scp_read s n))) = 0
      \<and> processed (snd (snd (ssh_scp_read s n))) = 0)
   \<and> (fst (ssh_scp_pull_request s) \<noteq> SSH_ERROR \<longrightarrow>
      state (snd (ssh_scp_pull_request s)) = SSH_SCP_READ_REQUESTED
      \<and> processed (snd (ssh_scp_pull_request s)) = 0)
   \<and> (fst (ssh_scp_deny_request s m) = SSH_OK \<longrightarrow>
      state (snd (ssh_scp_deny_request s m)) = SSH_SCP_READ_INITED
      \<and> filelen (snd (ssh_scp_deny_request s m)) = filelen s
      \<and> processed (snd (ssh_scp_deny_request s m)) = processed s)"
  using new_counters [of sess md loc scp] write_completed [of s b n] read_completed [of s n]
    pull_request_processed [of s] deny_counters [of s m]
  by (simp add: init_counters push_directory_counters leave_directory_counters)


lemma pull_file_result:
  "fst (ssh_scp_pull_request (inited ''C0644 10 x'')) = SSH_SCP_REQUEST_NEWFILE"
proof -
  have r: "ssh_scp_read_string (inited ''C0644 10 x'') 4096 =
      (1, (''C0644 10 x'' @ [LF]) @ [NUL],
       (inited ''C0644 10 x'')\<lparr>session :=
          after_bytes (session (inited ''C0644 10 x'')) (Suc (length ''C0644 10 x'')) []\<rparr>)"
    by (rule pull_line_read [OF inited_facts(2)]) (simp_all add: LF_def)
  show ?thesis
    by (simp add: ssh_scp_pull_request_def inited_facts r c_str_def NUL_def LF_def split_at_def
        Let_def SSH_ERROR_def)
qed

theorem counters_between_transfers_witness:
  "map_option filelen (fst (ssh_scp_new ready SSH_SCP_READ ''/tmp/src'')) = Some 0
   \<and> map_option processed (fst (ssh_scp_new ready SSH_SCP_READ ''/tmp/src'')) = Some 0
   \<and> state (writing\<lparr>filelen := 5\<rparr>) = SSH_SCP_WRITE_WRITING
   \<and> state (snd (ssh_scp_write (writing\<lparr>filelen := 5\<rparr>) ''hello'' 5)) = SSH_SCP_WRITE_INITED
   \<and> filelen (snd (ssh_scp_write (writing\<lparr>filelen := 5\<rparr>) ''hello'' 5)) = 0
   \<and> processed (snd (ssh_scp_write (writing\<lparr>filelen := 5\<rparr>) ''hello'' 5)) = 0
   \<and> state (file_requested\<lparr>filelen := 3\<rparr>) = SSH_SCP_READ_REQUESTED
   \<and> state (snd (snd (ssh_scp_read (file_requested\<lparr>filelen := 3\<rparr>) 3))) = SSH_SCP_READ_INITED
   \<and> filelen (snd (snd (ssh_scp_read (file_requested\<lparr>filelen := 3\<rparr>) 3))) = 0
   \<and> processed (snd (snd (ssh_scp_read (file_requested\<lparr>filelen := 3\<rparr>) 3))) = 0
   \<and> fst (ssh_scp_pull_request (inited ''C0644 10 x'')) = SSH_SCP_REQUEST_NEWFILE
   \<and> processed (snd (ssh_scp_pull_request (inited ''C0644 10 x''))) = 0
   \<and> fst (ssh_scp_deny_request (pulled ''C0644 10 x'') ''not allowed'') = SSH_OK
   \<and> filelen (snd (ssh_scp_deny_request (pulled ''C0644 10 x'') ''not allowed''))
       = filelen (pulled ''C0644 10 x'')
   \<and> filelen (pulled ''C0644 10 x'') = 10"
proof -
  obtain scp where n: "fst (ssh_scp_new ready SSH_SCP_READ ''/tmp/src'') = Some scp"
    by (simp add: ssh_scp_new_def ready_def silent_def alloc_def next_outcome_def
        SSH_SCP_WRITE_def SSH_SCP_READ_def)
  have w: "state (writing\<lparr>filelen := 5\<rparr>) = SSH_SCP_WRITE_WRITING"
    "state (snd (ssh_scp_write (writing\<lparr>filelen := 5\<rparr>) ''hello'' 5)) = SSH_SCP_WRITE_INITED"
    by (simp_all add: ssh_scp_write_def writing_def zero_scp_def silent_def clamp_len_def
        channel_write_def channel_poll_def Let_def SSH_ERROR_def SSH_OK_def)
  have r: "state (file_requested\<lparr>filelen := 3\<rparr>) = SSH_SCP_READ_REQUESTED"
    "state (file_requested\<lparr>filelen := 3\<rparr>) \<noteq> SSH_SCP_READ_INITED"
    "state (snd (snd (ssh_scp_read (file_requested\<lparr>filelen := 3\<rparr>) 3))) = SSH_SCP_READ_INITED"
    by (simp_all add: ssh_scp_read_def ssh_scp_accept_request_def ssh_scp_read_chunk_def
        file_requested_def zero_scp_def silent_def clamp_len_def channel_write_def
        channel_read_def Let_def SSH_ERROR_def SSH_OK_def)
  have p: "fst (ssh_scp_pull_request (inited ''C0644 10 x'')) \<noteq> SSH_ERROR"
    by (simp add: pull_file_result SSH_SCP_REQUEST_NEWFILE_def SSH_ERROR_def)
  from counters_between_transfers [of ready SSH_SCP_READ "''/tmp/src''" scp] n
    counters_between_transfers [of _ _ _ _ _ "writing\<lparr>filelen := 5\<rparr>" _ _ "''hello''" 5] w
    counters_between_transfers [of _ _ _ _ _ "file_requested\<lparr>filelen := 3\<rparr>" _ _ _ 3] r
    counters_between_transfers [of _ _ _ _ _ "inited ''C0644 10 x''"] p
    counters_between_transfers [of _ _ _ _ _ "pulled ''C0644 10 x''" _ _ _ _ "''not allowed''"]
    deny_pulled_file pulled_file pull_file_result
  show ?thesis by simp
qed

subsection \<open>The control lines of a push\<close>

lemma c_str_id: "NUL \<notin> set s \<Longrightarrow> c_str s = s"
  by (auto simp add: c_str_def takeWhile_eq_all_conv)

lemma strlen_id: "NUL \<notin> set s \<Longrightarrow> strlen s = length s"
  by (simp add: strlen_def c_str_id)

lemma digit_char_not_NUL: "d < 10 \<Longrightarrow> digit_char d \<noteq> NUL"
proof -
  have "\<forall>d\<in>set [0..<10]. digit_char d \<noteq> NUL" by code_simp
  moreover assume "d < 10"
  ultimately show ?thesis by simp
qed

lemma dec_not_NUL: "NUL \<notin> set (dec n)"
proof (induction n rule: dec.induct)
  case (1 n)
  show ?case
  proof (cases "n < 10")
    case True
    then show ?thesis
      using digit_char_not_NUL [of n] by (subst dec.simps) auto
  next
    case False
    with 1 have "NUL \<notin> set (dec (n div 10))" by simp
    moreover have "digit_char (n mod 10) \<noteq> NUL" by (rule digit_char_not_NUL) simp
    ultimately show ?thesis using False by (subst dec.simps) auto
  qed
qed

lemma basename_suffix:
  "CHR ''/'' \<notin> set (ssh_basename path)"
  "\<exists>dirs. path = dirs @ ssh_basename path \<and> (dirs = [] \<or> last dirs = CHR ''/'')"
proof -
  show "CHR ''/'' \<notin> set (ssh_basename path)"
    by (auto simp add: ssh_basename_def dest: set_takeWhileD)
  let ?P = "\<lambda>c. c \<noteq> CHR ''/''"
  have "rev path = takeWhile ?P (rev path) @ dropWhile ?P (rev path)" by simp
  then have "path = rev (dropWhile ?P (rev path)) @ rev (takeWhile ?P (rev path))"
    by (metis rev_append rev_rev_ident)
  moreover have "rev (dropWhile ?P (rev path)) = [] \<or> last (rev (dropWhile ?P (rev path))) = CHR ''/''"
  proof (cases "dropWhile ?P (rev path)")
    case Nil
    then show ?thesis by simp
  next
    case (Cons a list)
    with hd_dropWhile [of ?P "rev path"] have "a = CHR ''/''" by auto
    with Cons show ?thesis by simp
  qed
  ultimately show "\<exists>dirs. path = dirs @ ssh_basename path \<and> (dirs = [] \<or> last dirs = CHR ''/'')"
    unfolding ssh_basename_def by blast
qed

lemma basename_not_NUL: "NUL \<notin> set path \<Longrightarrow> NUL \<notin> set (ssh_basename path)"
  by (auto simp add: ssh_basename_def dest: set_takeWhileD)

lemma read_code_calls: "calls (snd (read_code c s)) = calls s @ [Channel_read 1]"
  by (simp add: read_code_def channel_read_def Let_def split: list.splits option.splits prod.splits)

lemma push_directory_calls:
  assumes "state scp = SSH_SCP_WRITE_INITED"
  shows "new_calls scp (snd (ssh_scp_push_directory c scp dirname perms)) =
     (let buffer = snprintf 1024 (''D'' @ perms @ '' 0 '' @ ssh_basename dirname @ [LF])
      in Channel_write (take (strlen buffer) buffer) (strlen buffer)
         # (if fst (channel_write (session scp) buffer (strlen buffer)) = SSH_ERROR
            then [] else [Channel_read 1]))"
proof -
  let ?buffer = "snprintf 1024 (''D'' @ perms @ '' 0 '' @ ssh_basename dirname @ [LF])"
  obtain r s1 where w: "channel_write (session scp) ?buffer (strlen ?buffer) = (r, s1)"
    by (cases "channel_write (session scp) ?buffer (strlen ?buffer)")
  from channel_write_calls [of "session scp" ?buffer "strlen ?buffer"] w
  have c1: "calls s1 = calls (session scp) @ [Channel_write (take (strlen ?buffer) ?buffer) (strlen ?buffer)]"
    by simp
  obtain code s2 where rc: "read_code c s1 = (code, s2)" by (cases "read_code c s1")
  from read_code_calls [of c s1] rc have c2: "calls s2 = calls s1 @ [Channel_read 1]" by simp
  show ?thesis
    using assms w rc c1 c2
    by (simp add: ssh_scp_push_directory_def new_calls_def Let_def ssh_set_error_def)
qed


lemma leave_directory_calls:
  assumes "state scp = SSH_SCP_WRITE_INITED"
  shows "new_calls scp (snd (ssh_scp_leave_directory c scp)) =
     (let buffer = [CHR ''E'', LF]
      in Channel_write (take (strlen buffer) buffer) (strlen buffer)
         # (if fst (channel_write (session scp) buffer (strlen buffer)) = SSH_ERROR
            then [] else [Channel_read 1]))"
proof -
  let ?buffer = "[CHR ''E'', LF]"
  obtain r s1 where w: "channel_write (session scp) ?buffer (strlen ?buffer) = (r, s1)"
    by (cases "channel_write (session scp) ?buffer (strlen ?buffer)")
  from channel_write_calls [of "session scp" ?buffer "strlen ?buffer"] w
  have c1: "calls s1 = calls (session scp) @ [Channel_write (take (strlen ?buffer) ?buffer) (strlen ?buffer)]"
    by simp
  obtain code s2 where rc: "read_code c s1 = (code, s2)" by (cases "read_code c s1")
  from read_code_calls [of c s1] rc have c2: "calls s2 = calls s1 @ [Channel_read 1]" by simp
  show ?thesis
    using assms w rc c1 c2
    by (simp add: ssh_scp_leave_directory_def new_calls_def Let_def ssh_set_error_def)
qed

lemma push_file_calls:
  assumes "state scp = SSH_SCP_WRITE_INITED"
  shows "new_calls scp (snd (ssh_scp_push_file c scp filename sz perms)) =
     (let buffer = snprintf 1024
            (''C'' @ perms @ '' '' @ PRIdS sz @ '' '' @ ssh_basename filename @ [LF])
      in Channel_write (take (strlen buffer) buffer) (strlen buffer)
         # (if fst (channel_write (session scp) buffer (strlen buffer)) = SSH_ERROR
            then [] else [Channel_read 1]))"
proof -
  let ?buffer = "snprintf 1024
      (''C'' @ perms @ '' '' @ PRIdS sz @ '' '' @ ssh_basename filename @ [LF])"
  obtain r s1 where w: "channel_write (session scp) ?buffer (strlen ?buffer) = (r, s1)"
    by (cases "channel_write (session scp) ?buffer (strlen ?buffer)")
  from channel_write_calls [of "session scp" ?buffer "strlen ?buffer"] w
  have c1: "calls s1 = calls (session scp) @ [Channel_write (take (strlen ?buffer) ?buffer) (strlen ?buffer)]"
    by simp
  obtain code s2 where rc: "read_code c s1 = (code, s2)" by (cases "read_code c s1")
  from read_code_calls [of c s1] rc have c2: "calls s2 = calls s1 @ [Channel_read 1]" by simp
  show ?thesis
    using assms w rc c1 c2
    by (simp add: ssh_scp_push_file_def new_calls_def Let_def ssh_set_error_def)
qed

lemma LF_not_NUL [simp]: "LF \<noteq> NUL" "NUL \<noteq> LF"
  by (simp_all add: LF_def NUL_def)

lemma NUL_chars [simp]:
  "NUL \<noteq> CHR ''D''" "NUL \<noteq> CHR ''C''" "NUL \<noteq> CHR ''E''" "NUL \<noteq> CHR '' ''" "NUL \<noteq> CHR ''0''"
  by (simp_all add: NUL_def)

text \<open>
  Claim C7, as amended. In \<open>SSH_SCP_WRITE_INITED\<close>, for a name and a permission string
  that are C strings (no NUL inside): if the line made of \<open>D\<close>, the permissions, \<open> 0 \<close>,
  the basename and a newline has at most 1023 bytes, the first channel call of
  \<open>ssh_scp_push_directory\<close> is the write of exactly that line; if the line made of
  \<open>C\<close>, the permissions, a space, the size in decimal, a space, the basename and a
  newline has at most 1023 bytes, the first channel call of \<open>ssh_scp_push_file\<close> is
  the write of exactly that line; the first channel call of \<open>ssh_scp_leave_directory\<close>
  is the write of \<open>E\<close> and a newline. The basename has no separator and is what
  follows the last separator of the name; the permission string is copied as it is.
\<close>

theorem control_lines_written:
  assumes "state scp = SSH_SCP_WRITE_INITED" and "NUL \<notin> set perms" and "NUL \<notin> set name"
  shows "(length (''D'' @ perms @ '' 0 '' @ ssh_basename name @ [LF]) \<le> 1023 \<longrightarrow>
            take 1 (new_calls scp (snd (ssh_scp_push_directory c scp name perms))) =
              [Channel_write (''D'' @ perms @ '' 0 '' @ ssh_basename name @ [LF])
                 (length (''D'' @ perms @ '' 0 '' @ ssh_basename name @ [LF]))])
       \<and> (length (''C'' @ perms @ '' '' @ dec (unat sz) @ '' '' @ ssh_basename name @ [LF]) \<le> 1023 \<longrightarrow>
            take 1 (new_calls scp (snd (ssh_scp_push_file c scp name sz perms))) =
              [Channel_write (''C'' @ perms @ '' '' @ dec (unat sz) @ '' '' @ ssh_basename name @ [LF])
                 (length (''C'' @ perms @ '' '' @ dec (unat sz) @ '' '' @ ssh_basename name @ [LF]))])
       \<and> take 1 (new_calls scp (snd (ssh_scp_leave_directory c scp))) =
            [Channel_write (''E'' @ [LF]) 2]
       \<and> CHR ''/'' \<notin> set (ssh_basename name)
       \<and> (\<exists>dirs. name = dirs @ ssh_basename name \<and> (dirs = [] \<or> last dirs = CHR ''/''))"
proof (intro conjI impI)
  let ?d = "''D'' @ perms @ '' 0 '' @ ssh_basename name @ [LF]"
  let ?c = "''C'' @ perms @ '' '' @ dec (unat sz) @ '' '' @ ssh_basename name @ [LF]"
  have nd: "NUL \<notin> set ?d"
    using assms(2) basename_not_NUL [OF assms(3)] by simp
  have nc: "NUL \<notin> set ?c"
    using assms(2) basename_not_NUL [OF assms(3)] dec_not_NUL [of "unat sz"] by simp
  {
    assume "length ?d \<le> 1023"
    then have b: "snprintf 1024 ?d = ?d" by (simp add: snprintf_def)
    have l: "strlen ?d = length ?d" by (rule strlen_id [OF nd])
    show "take 1 (new_calls scp (snd (ssh_scp_push_directory c scp name perms))) =
        [Channel_write ?d (length ?d)]"
      unfolding push_directory_calls [OF assms(1)] Let_def b l by simp
  }
  {
    assume "length ?c \<le> 1023"
    then have b: "snprintf 1024 ?c = ?c" by (simp add: snprintf_def)
    have l: "strlen ?c = length ?c" by (rule strlen_id [OF nc])
    show "take 1 (new_calls scp (snd (ssh_scp_push_file c scp name sz perms))) =
        [Channel_write ?c (length ?c)]"
      unfolding push_file_calls [OF assms(1)] Let_def PRIdS_def b l by simp
  }
  have "strlen [CHR ''E'', LF] = 2" by (simp add: strlen_id)
  then show "take 1 (new_calls scp (snd (ssh_scp_leave_directory c scp))) =
      [Channel_write (''E'' @ [LF]) 2]"
    unfolding leave_directory_calls [OF assms(1)] Let_def by simp
  show "CHR ''/'' \<notin> set (ssh_basename name)" by (rule basename_suffix(1))
  show "\<exists>dirs. name = dirs @ ssh_basename name \<and> (dirs = [] \<or> last dirs = CHR ''/'')"
    by (rule basename_suffix(2))
qed


lemma in_state_calls [simp]: "calls (session (in_state st)) = []"
  by (simp add: silent_def)

text \<open>
  Claim C7 as stated fails: the buffer of the control line has 1024 bytes. For a
  directory name of 1100 letters \<open>a\<close> the only bytes handed to the channel are the
  first 1023 bytes of the line, which is not the line: the end of the name and the
  newline are missing.
\<close>

theorem long_name_counterexample:
  "state (in_state SSH_SCP_WRITE_INITED) = SSH_SCP_WRITE_INITED
   \<and> ssh_basename (replicate 1100 CHR ''a'') = replicate 1100 CHR ''a''
   \<and> new_calls (in_state SSH_SCP_WRITE_INITED)
        (snd (ssh_scp_push_directory NUL (in_state SSH_SCP_WRITE_INITED)
                (replicate 1100 CHR ''a'') ''0755'')) =
       [Channel_write (''D0755 0 '' @ replicate 1015 CHR ''a'') 1023]
   \<and> ''D0755 0 '' @ replicate 1015 CHR ''a''
       \<noteq> ''D0755 0 '' @ ssh_basename (replicate 1100 CHR ''a'') @ [LF]"
proof -
  have bn: "ssh_basename (replicate 1100 CHR ''a'') = replicate 1100 CHR ''a''"
    by (simp add: ssh_basename_def takeWhile_replicate)
  have sp: "replicate 1100 CHR ''a'' = replicate 1015 CHR ''a'' @ replicate 85 CHR ''a''"
    by (simp add: replicate_add [symmetric])
  have b: "snprintf 1024 (''D'' @ ''0755'' @ '' 0 '' @ replicate 1100 CHR ''a'' @ [LF]) =
      ''D0755 0 '' @ replicate 1015 CHR ''a''"
    by (simp add: snprintf_def sp)
  have n: "NUL \<notin> set (''D0755 0 '' @ replicate 1015 CHR ''a'')"
    by (simp add: NUL_def)
  have l: "strlen (''D0755 0 '' @ replicate 1015 CHR ''a'') = 1023"
    using strlen_id [OF n] by simp
  have w: "fst (channel_write (session (in_state SSH_SCP_WRITE_INITED))
        (''D0755 0 '' @ replicate 1015 CHR ''a'') 1023) = SSH_ERROR"
    by (simp add: silent_calls)
  have c: "new_calls (in_state SSH_SCP_WRITE_INITED)
        (snd (ssh_scp_push_directory NUL (in_state SSH_SCP_WRITE_INITED)
                (replicate 1100 CHR ''a'') ''0755'')) =
       [Channel_write (''D0755 0 '' @ replicate 1015 CHR ''a'') 1023]"
    unfolding push_directory_calls [OF in_state_simps(1)] Let_def bn b l w by simp
  have d: "length (''D0755 0 '' @ replicate 1015 CHR ''a'')
      \<noteq> length (''D0755 0 '' @ replicate 1100 CHR ''a'' @ [LF])"
    by simp
  then have "''D0755 0 '' @ replicate 1015 CHR ''a''
      \<noteq> ''D0755 0 '' @ replicate 1100 CHR ''a'' @ [LF]"
    by metis
  with bn c show ?thesis by simp
qed

theorem control_lines_written_witness:
  "state (in_state SSH_SCP_WRITE_INITED) = SSH_SCP_WRITE_INITED
   \<and> NUL \<notin> set ''0644'' \<and> NUL \<notin> set ''a/b/c.txt''
   \<and> ssh_basename ''a/b/c.txt'' = ''c.txt''
   \<and> take 1 (new_calls (in_state SSH_SCP_WRITE_INITED)
        (snd (ssh_scp_push_directory NUL (in_state SSH_SCP_WRITE_INITED) ''a/b/c.txt'' ''0644''))) =
       [Channel_write (''D0644 0 c.txt'' @ [LF]) 14]
   \<and> take 1 (new_calls (in_state SSH_SCP_WRITE_INITED)
        (snd (ssh_scp_push_file NUL (in_state SSH_SCP_WRITE_INITED) ''a/b/c.txt'' 1234 ''0644''))) =
       [Channel_write (''C0644 1234 c.txt'' @ [LF]) 17]
   \<and> take 1 (new_calls (in_state SSH_SCP_WRITE_INITED)
        (snd (ssh_scp_leave_directory NUL (in_state SSH_SCP_WRITE_INITED)))) =
       [Channel_write (''E'' @ [LF]) 2]"
proof -
  have p: "NUL \<notin> set ''0644''" and n: "NUL \<notin> set ''a/b/c.txt''"
    by (simp_all add: NUL_def)
  have bn: "ssh_basename ''a/b/c.txt'' = ''c.txt''"
    by (simp add: ssh_basename_def)
  from control_lines_written [OF in_state_simps(1) p n, of NUL 1234] p n
  show ?thesis by (simp add: bn digit_char_nth)
qed

subsection \<open>The clamp of the chunks\<close>

text \<open>
  While \<open>processed + len\<close> does not wrap in \<^verbatim>\<open>size_t\<close>, a write offers the channel
  the minimum of the length asked for and of what is left of the file, and a read asks
  for the minimum of the size, of what is left and of 65536. After a chunk the transfer
  is over exactly when \<open>processed\<close> has reached \<open>filelen\<close>: the counters are then 0
  and the state is the inited one, and the only channel calls of the operation are the
  poll and the write, or the read.
\<close>

lemma clamp_len_no_wrap:
  assumes "processed scp \<le> filelen scp" and "unat (processed scp) + unat len < 2 ^ 64"
  shows "unat (clamp_len scp len) = min (unat len) (unat (filelen scp) - unat (processed scp))"
proof -
  have a: "unat (processed scp + len) = unat (processed scp) + unat len"
    using assms(2) unat_add_lem [of "processed scp" len] by simp
  have s: "unat (filelen scp - processed scp) = unat (filelen scp) - unat (processed scp)"
    using assms(1) by (rule unat_sub)
  have p: "unat (processed scp) \<le> unat (filelen scp)"
    using assms(1) by (simp add: word_le_nat_alt)
  show ?thesis
    using a s p by (auto simp add: clamp_len_def word_less_nat_alt)
qed

lemma read_len_no_wrap:
  assumes "processed scp \<le> filelen scp" and "unat (processed scp) + unat sz < 2 ^ 64"
  shows "unat (read_len scp sz) =
     min (min (unat sz) (unat (filelen scp) - unat (processed scp))) 65536"
  using clamp_len_no_wrap [OF assms]
  by (auto simp add: read_len_def word_less_nat_alt)

lemma write_calls:
  assumes "state scp = SSH_SCP_WRITE_WRITING"
  shows "new_calls scp (snd (ssh_scp_write scp buffer len)) =
     [Channel_poll,
      Channel_write (take (unat (clamp_len scp len)) buffer) (unat (clamp_len scp len))]"
proof -
  let ?k = "unat (clamp_len scp len)"
  obtain w s2 where cw: "channel_write (channel_poll (session scp)) buffer ?k = (w, s2)"
    by (cases "channel_write (channel_poll (session scp)) buffer ?k")
  from channel_write_calls [of "channel_poll (session scp)" buffer ?k] cw
  have "calls s2 = calls (session scp) @ [Channel_poll, Channel_write (take ?k buffer) ?k]"
    by (simp add: channel_poll_def)
  then show ?thesis
    using assms cw by (simp add: ssh_scp_write_def new_calls_def Let_def)
qed

lemma channel_read_calls: "calls (snd (snd (channel_read s n))) = calls s @ [Channel_read n]"
  by (simp add: channel_read_def Let_def split: list.splits option.splits)

lemma read_calls:
  assumes "state scp = SSH_SCP_READ_READING"
  shows "new_calls scp (snd (snd (ssh_scp_read scp sz))) = [Channel_read (unat (read_len scp sz))]"
proof -
  let ?k = "unat (read_len scp sz)"
  obtain r bs s1 where cr: "channel_read (session scp) ?k = (r, bs, s1)"
    by (cases "channel_read (session scp) ?k")
  from channel_read_calls [of "session scp" ?k] cr
  have "calls s1 = calls (session scp) @ [Channel_read ?k]" by simp
  then show ?thesis
    using assms cr
    by (simp add: read_in_reading ssh_scp_read_chunk_def new_calls_def Let_def read_len_def)
qed

lemma write_completes:
  assumes "state scp = SSH_SCP_WRITE_WRITING"
    and "fst (channel_write (channel_poll (session scp)) buffer (unat (clamp_len scp len))) = w"
    and "w \<noteq> SSH_ERROR"
  shows "(processed scp + word_of_int w = filelen scp \<longrightarrow>
            state (snd (ssh_scp_write scp buffer len)) = SSH_SCP_WRITE_INITED
            \<and> filelen (snd (ssh_scp_write scp buffer len)) = 0
            \<and> processed (snd (ssh_scp_write scp buffer len)) = 0)
       \<and> (processed scp + word_of_int w \<noteq> filelen scp \<longrightarrow>
            state (snd (ssh_scp_write scp buffer len)) = SSH_SCP_WRITE_WRITING
            \<and> filelen (snd (ssh_scp_write scp buffer len)) = filelen scp
            \<and> processed (snd (ssh_scp_write scp buffer len)) = processed scp + word_of_int w)"
  using assms by (auto simp add: ssh_scp_write_def Let_def split: prod.splits)

lemma read_completes:
  assumes "state scp = SSH_SCP_READ_READING"
    and "fst (channel_read (session scp) (unat (read_len scp sz))) = r"
    and "r \<noteq> SSH_ERROR"
  shows "(processed scp + word_of_int r = filelen scp \<longrightarrow>
            state (snd (snd (ssh_scp_read scp sz))) = SSH_SCP_READ_INITED
            \<and> filelen (snd (snd (ssh_scp_read scp sz))) = 0
            \<and> processed (snd (snd (ssh_scp_read scp sz))) = 0)
       \<and> (processed scp + word_of_int r \<noteq> filelen scp \<longrightarrow>
            state (snd (snd (ssh_scp_read scp sz))) = SSH_SCP_READ_READING
            \<and> filelen (snd (snd (ssh_scp_read scp sz))) = filelen scp
            \<and> processed (snd (snd (ssh_scp_read scp sz))) = processed scp + word_of_int r)"
proof -
  obtain bs s1 where cr: "channel_read (session scp) (unat (read_len scp sz)) = (r, bs, s1)"
    using assms(2) by (cases "channel_read (session scp) (unat (read_len scp sz))") auto
  have "ssh_scp_read scp sz =
      (if processed scp + word_of_int r = filelen scp
       then (r, bs, scp\<lparr>session := s1, processed := 0, filelen := 0,
                         state := SSH_SCP_READ_INITED\<rparr>)
       else (r, bs, scp\<lparr>session := s1, processed := processed scp + word_of_int r\<rparr>))"
    using assms(1,3) cr [unfolded read_len_def]
    by (simp add: read_in_reading ssh_scp_read_chunk_def Let_def)
  then show ?thesis using assms(1) by simp
qed

text \<open>
  Claim C3 fails where the sum wraps. In a session that has read 5 bytes of 10, a read
  with the size \<open>2^64 - 1\<close> is not clamped to the 5 bytes that are left, since
  \<open>5 + (2^64 - 1)\<close> wraps to 4: the channel is asked for 65536 bytes, the 9 bytes it
  delivers are returned, and \<open>processed\<close> is 14 with \<open>filelen\<close> 10, so that the
  transfer is not ended.
\<close>

theorem read_clamp_wraps:
  "state half_read = SSH_SCP_READ_READING
   \<and> filelen half_read = 10 \<and> processed half_read = 5
   \<and> clamp_len half_read (- 1) = - 1
   \<and> new_calls half_read (snd (snd (ssh_scp_read half_read (- 1)))) = [Channel_read 65536]
   \<and> fst (ssh_scp_read half_read (- 1)) = 9
   \<and> fst (snd (ssh_scp_read half_read (- 1))) = ''123456789''
   \<and> state (snd (snd (ssh_scp_read half_read (- 1)))) = SSH_SCP_READ_READING
   \<and> processed (snd (snd (ssh_scp_read half_read (- 1)))) = 14
   \<and> filelen (snd (snd (ssh_scp_read half_read (- 1)))) = 10"
proof -
  have st: "state half_read = SSH_SCP_READ_READING" "filelen half_read = 10"
    "processed half_read = 5"
    "session half_read = silent\<lparr>read_replies := [Some ''123456789'']\<rparr>"
    by (simp_all add: half_read_def zero_scp_def)
  have c: "clamp_len half_read (- 1) = - 1"
    by (simp add: clamp_len_def st)
  have k: "unat (read_len half_read (- 1)) = 65536"
    by (simp add: read_len_def c)
  have r: "channel_read (session half_read) 65536 =
      (9, ''123456789'', silent\<lparr>read_replies := [], calls := [Channel_read 65536]\<rparr>)"
    by (simp add: st channel_read_def silent_def)
  from read_calls [OF st(1), of "- 1"] k
  have n: "new_calls half_read (snd (snd (ssh_scp_read half_read (- 1)))) = [Channel_read 65536]"
    by simp
  have "ssh_scp_read half_read (- 1) =
      (9, ''123456789'', half_read\<lparr>session :=
         silent\<lparr>read_replies := [], calls := [Channel_read 65536]\<rparr>, processed := 14\<rparr>)"
    using r by (simp add: read_in_reading st ssh_scp_read_chunk_def c SSH_ERROR_def)
  with st c n show ?thesis by simp
qed

end
